theory Spec2Isabelle
  imports Complex_Main
begin

section \<open>JavaScript values\<close>

text \<open>
  The TypeScript sources run on a JavaScript engine; the values that flow through the
  monitor are the ones \<^verbatim>\<open>JSON.parse\<close> and the scraper can produce. A \<^verbatim>\<open>number\<close> is
  modelled by its exact value (every finite double is a rational) plus the three special
  values; the tests the code performs on numbers (\<^verbatim>\<open>Number.isInteger\<close>, \<^verbatim>\<open>> 0\<close>,
  \<^verbatim>\<open>===\<close>) depend on that value only. Objects and arrays carry the address of their
  allocation, because \<^verbatim>\<open>===\<close> on them compares identity, not contents.
\<close>

datatype number = NaN | PosInfinity | NegInfinity | Finite rat

datatype jsval =
    Undefined
  | Null
  | Bool bool
  | Num number
  | Str string
  | Obj nat "(string \<times> jsval) list"
  | Arr nat "jsval list"

text \<open>Thrown values: \<^verbatim>\<open>Error\<close> and its subclasses, each with its message; a Node
  \<^verbatim>\<open>ErrnoException\<close> also has a \<^verbatim>\<open>code\<close>.\<close>

datatype js_error =
    Error string
  | TypeError string
  | SyntaxError string
  | ErrnoException string string

fun message :: "js_error \<Rightarrow> string" where
  "message (Error m) = m"
| "message (TypeError m) = m"
| "message (SyntaxError m) = m"
| "message (ErrnoException c m) = m"

fun code :: "js_error \<Rightarrow> string option" where
  "code (ErrnoException c m) = Some c"
| "code _ = None"

fun instanceof_SyntaxError :: "js_error \<Rightarrow> bool" where
  "instanceof_SyntaxError (SyntaxError m) = True"
| "instanceof_SyntaxError _ = False"

text \<open>\<^verbatim>\<open>String(error)\<close>: the error's name, a colon and its message, or the bare name
  when the message is empty.\<close>

fun error_name :: "js_error \<Rightarrow> string" where
  "error_name (Error m) = ''Error''"
| "error_name (TypeError m) = ''TypeError''"
| "error_name (SyntaxError m) = ''SyntaxError''"
| "error_name (ErrnoException c m) = ''Error''"

definition error_to_string :: "js_error \<Rightarrow> string" where
  "error_to_string e = (if message e = [] then error_name e else error_name e @ '': '' @ message e)"

fun typeof :: "jsval \<Rightarrow> string" where
  "typeof Undefined = ''undefined''"
| "typeof Null = ''object''"
| "typeof (Bool b) = ''boolean''"
| "typeof (Num n) = ''number''"
| "typeof (Str s) = ''string''"
| "typeof (Obj a fs) = ''object''"
| "typeof (Arr a xs) = ''object''"

text \<open>Truthiness, as \<^verbatim>\<open>!v\<close> and \<^verbatim>\<open>if (v)\<close> see it.\<close>

fun truthy :: "jsval \<Rightarrow> bool" where
  "truthy Undefined = False"
| "truthy Null = False"
| "truthy (Bool b) = b"
| "truthy (Num n) = (n \<noteq> NaN \<and> n \<noteq> Finite 0)"
| "truthy (Str s) = (s \<noteq> [])"
| "truthy (Obj a fs) = True"
| "truthy (Arr a xs) = True"

text \<open>
  Reading one of the properties \<^verbatim>\<open>date\<close>, \<^verbatim>\<open>invitations\<close>, \<^verbatim>\<open>crsScore\<close>: an
  object yields its field or \<^verbatim>\<open>undefined\<close>; arrays and primitives have no property of
  these names; on \<^verbatim>\<open>undefined\<close> and \<^verbatim>\<open>null\<close> the read throws a \<^verbatim>\<open>TypeError\<close>
  (\<open>get_prop\<close>), whose text is the engine's.
\<close>

fun field :: "jsval \<Rightarrow> string \<Rightarrow> jsval" where
  "field (Obj a fs) k = (case map_of fs k of Some v \<Rightarrow> v | None \<Rightarrow> Undefined)"
| "field _ k = Undefined"

fun get_prop :: "jsval \<Rightarrow> string \<Rightarrow> js_error + jsval" where
  "get_prop Undefined k = Inl (TypeError (''Cannot read properties of undefined (reading '' @ k @ '')''))"
| "get_prop Null k = Inl (TypeError (''Cannot read properties of null (reading '' @ k @ '')''))"
| "get_prop v k = Inr (field v k)"

text \<open>\<^verbatim>\<open>a === b\<close>.\<close>

fun strict_eq :: "jsval \<Rightarrow> jsval \<Rightarrow> bool" where
  "strict_eq Undefined Undefined = True"
| "strict_eq Null Null = True"
| "strict_eq (Bool x) (Bool y) = (x = y)"
| "strict_eq (Num x) (Num y) = (x \<noteq> NaN \<and> x = y)"
| "strict_eq (Str x) (Str y) = (x = y)"
| "strict_eq (Obj p fs) (Obj q gs) = (p = q)"
| "strict_eq (Arr p xs) (Arr q ys) = (p = q)"
| "strict_eq _ _ = False"

text \<open>Deep equality (the tests' \<^verbatim>\<open>toEqual\<close>): equality up to the addresses.\<close>

fun strip_addr :: "jsval \<Rightarrow> jsval" where
  "strip_addr (Obj a fs) = Obj 0 (map (\<lambda>kv. (fst kv, strip_addr (snd kv))) fs)"
| "strip_addr (Arr a xs) = Arr 0 (map strip_addr xs)"
| "strip_addr v = v"

definition deep_equal :: "jsval \<Rightarrow> jsval \<Rightarrow> bool" where
  "deep_equal a b = (strip_addr a = strip_addr b)"

subsection \<open>Numbers\<close>

fun isNaN :: "number \<Rightarrow> bool" where
  "isNaN NaN = True"
| "isNaN _ = False"

fun Number_isInteger :: "number \<Rightarrow> bool" where
  "Number_isInteger (Finite r) = (r \<in> \<int>)"
| "Number_isInteger _ = False"

text \<open>\<^verbatim>\<open>a > b\<close> on numbers.\<close>

fun number_gt :: "number \<Rightarrow> number \<Rightarrow> bool" where
  "number_gt NaN b = False"
| "number_gt a NaN = False"
| "number_gt (Finite x) (Finite y) = (y < x)"
| "number_gt PosInfinity PosInfinity = False"
| "number_gt PosInfinity b = True"
| "number_gt NegInfinity b = False"
| "number_gt (Finite x) NegInfinity = True"
| "number_gt (Finite x) PosInfinity = False"

text \<open>\<^verbatim>\<open>a - b\<close> on numbers.\<close>

fun number_minus :: "number \<Rightarrow> number \<Rightarrow> number" where
  "number_minus NaN b = NaN"
| "number_minus a NaN = NaN"
| "number_minus (Finite x) (Finite y) = Finite (x - y)"
| "number_minus PosInfinity PosInfinity = NaN"
| "number_minus NegInfinity NegInfinity = NaN"
| "number_minus PosInfinity b = PosInfinity"
| "number_minus NegInfinity b = NegInfinity"
| "number_minus (Finite x) PosInfinity = NegInfinity"
| "number_minus (Finite x) NegInfinity = PosInfinity"

text \<open>\<^verbatim>\<open>a === b\<close> on two numbers.\<close>

definition number_eq :: "number \<Rightarrow> number \<Rightarrow> bool" where
  "number_eq a b = (a \<noteq> NaN \<and> a = b)"

text \<open>
  \<^verbatim>\<open>Math.pow(2, n)\<close> for an integer \<open>n\<close>: the power is a double from \<open>2 ^ - 1074\<close> to
  \<open>2 ^ 1023\<close>; above it is \<^verbatim>\<open>Infinity\<close>, below it is 0.
\<close>

definition Math_pow2 :: "int \<Rightarrow> number" where
  "Math_pow2 n =
     (if 1024 \<le> n then PosInfinity
      else if 0 \<le> n then Finite (2 ^ nat n)
      else if - 1074 \<le> n then Finite (1 / 2 ^ nat (- n))
      else Finite 0)"

text \<open>
  \<^verbatim>\<open>a * b\<close> where \<open>b\<close> is a power of two that is at least 1, or \<^verbatim>\<open>Infinity\<close>, as
  \<^verbatim>\<open>Math.pow(2, n)\<close> is for \<open>n\<close> from 0: the product of a double with such a power needs no
  rounding, so it is the exact product, unless that is of magnitude \<open>2 ^ 1024\<close> or more,
  which no double has: then it is an infinity. Zero times an infinity is \<^verbatim>\<open>NaN\<close>.
\<close>

definition overflow_threshold :: rat where
  "overflow_threshold = 2 ^ 1024"

fun number_times :: "number \<Rightarrow> number \<Rightarrow> number" where
  "number_times NaN b = NaN"
| "number_times a NaN = NaN"
| "number_times (Finite x) (Finite y) =
     (if overflow_threshold \<le> \<bar>x * y\<bar>
      then (if 0 < x * y then PosInfinity else NegInfinity)
      else Finite (x * y))"
| "number_times (Finite x) PosInfinity =
     (if x = 0 then NaN else if 0 < x then PosInfinity else NegInfinity)"
| "number_times (Finite x) NegInfinity =
     (if x = 0 then NaN else if 0 < x then NegInfinity else PosInfinity)"
| "number_times PosInfinity (Finite y) =
     (if y = 0 then NaN else if 0 < y then PosInfinity else NegInfinity)"
| "number_times NegInfinity (Finite y) =
     (if y = 0 then NaN else if 0 < y then NegInfinity else PosInfinity)"
| "number_times PosInfinity PosInfinity = PosInfinity"
| "number_times NegInfinity NegInfinity = PosInfinity"
| "number_times PosInfinity NegInfinity = NegInfinity"
| "number_times NegInfinity PosInfinity = NegInfinity"

section \<open>The platform\<close>

text \<open>
  A \<^verbatim>\<open>Date\<close> is read through its three UTC getters only; \<open>None\<close> is the invalid date,
  the one whose \<^verbatim>\<open>getTime()\<close> is \<^verbatim>\<open>NaN\<close>.
\<close>

record Date =
  getUTCFullYear :: int
  getUTCMonth :: int
  getUTCDate :: int

text \<open>
  The library functions the sources call and do not define. They are parameters of the
  model: \<^verbatim>\<open>new Date(string)\<close> (engines differ on out-of-range days: some give the
  invalid date, some roll over into the next month), \<^verbatim>\<open>JSON.parse\<close> (\<open>Inl\<close> is the
  message of the \<^verbatim>\<open>SyntaxError\<close> it throws), \<^verbatim>\<open>JSON.stringify(value, null, space)\<close>
  (\<open>space\<close> is 0 where the call gives none) and \<^verbatim>\<open>path.dirname\<close>.
\<close>

record platform =
  new_Date :: "string \<Rightarrow> Date option"
  JSON_parse :: "string \<Rightarrow> string + jsval"
  JSON_stringify :: "jsval \<Rightarrow> nat \<Rightarrow> string"
  dirname :: "string \<Rightarrow> string"

section \<open>validation.ts\<close>

definition is_digit :: "char \<Rightarrow> bool" where
  "is_digit c = (c \<in> set ''0123456789'')"

definition digit_value :: "char \<Rightarrow> nat" where
  "digit_value c = of_char c - 48"

text \<open>The regular expression \<^verbatim>\<open>/^\d{4}-\d{2}-\d{2}$/\<close>.\<close>

definition isoDateRegex_test :: "string \<Rightarrow> bool" where
  "isoDateRegex_test s =
     (length s = 10 \<and> list_all is_digit (take 4 s) \<and> s ! 4 = CHR ''-'' \<and>
      list_all is_digit (take 2 (drop 5 s)) \<and> s ! 7 = CHR ''-'' \<and>
      list_all is_digit (drop 8 s))"

text \<open>\<^verbatim>\<open>dateString.split('-')\<close>.\<close>

fun split_on :: "char \<Rightarrow> string \<Rightarrow> string list" where
  "split_on c [] = [[]]"
| "split_on c (x # xs) =
     (if x = c then [] # split_on c xs
      else (case split_on c xs of w # ws \<Rightarrow> (x # w) # ws | [] \<Rightarrow> [[x]]))"

text \<open>
  \<^verbatim>\<open>Number(part)\<close> on a part of the split date string. After the regular expression
  has matched, every part is a non-empty string of decimal digits, whose value is read
  in base ten (leading zeros allowed); the other forms of a numeric string cannot reach
  this call and are mapped to \<^verbatim>\<open>NaN\<close>.
\<close>

definition decimal_value :: "string \<Rightarrow> nat" where
  "decimal_value s = foldl (\<lambda>n c. 10 * n + digit_value c) 0 s"

definition js_Number :: "string \<Rightarrow> number" where
  "js_Number s = (if s \<noteq> [] \<and> list_all is_digit s then Finite (of_nat (decimal_value s)) else NaN)"

definition isValidISODate :: "platform \<Rightarrow> string \<Rightarrow> bool" where
  "isValidISODate P dateString =
     (if \<not> isoDateRegex_test dateString then False
      else (case new_Date P dateString of
              None \<Rightarrow> False
            | Some date \<Rightarrow>
                (let parts = map js_Number (split_on CHR ''-'' dateString) in
                 if length parts \<noteq> 3 \<or> list_ex isNaN parts then False
                 else (let year = parts ! 0; month = parts ! 1; day = parts ! 2 in
                       number_eq (Finite (of_int (getUTCFullYear date))) year \<and>
                       number_eq (Finite (of_int (getUTCMonth date))) (number_minus month (Finite 1)) \<and>
                       number_eq (Finite (of_int (getUTCDate date))) day))))"

definition isPositiveInteger :: "number \<Rightarrow> bool" where
  "isPositiveInteger v = (Number_isInteger v \<and> number_gt v (Finite 0))"

definition isValidInvitationData :: "platform \<Rightarrow> jsval \<Rightarrow> bool" where
  "isValidInvitationData P data =
     (if \<not> truthy data \<or> typeof data \<noteq> ''object'' then False
      else if (case field data ''date'' of Str s \<Rightarrow> \<not> isValidISODate P s | _ \<Rightarrow> True) then False
      else if (case field data ''invitations'' of Num n \<Rightarrow> \<not> isPositiveInteger n | _ \<Rightarrow> True) then False
      else if (case field data ''crsScore'' of Num n \<Rightarrow> \<not> isPositiveInteger n | _ \<Rightarrow> True) then False
      else True)"

section \<open>comparison.ts\<close>

record ComparisonResult =
  hasChanged :: bool
  previous :: jsval
  current :: jsval

text \<open>The body of the \<^verbatim>\<open>try\<close> block of \<^verbatim>\<open>compareData\<close>; \<open>Inl\<close> is what it throws.\<close>

definition compareData_try :: "jsval \<Rightarrow> jsval \<Rightarrow> js_error + ComparisonResult" where
  "compareData_try prev cur =
     (if \<not> truthy cur \<or> \<not> truthy (field cur ''date'')
      then Inl (Error ''Invalid current data: missing date field'')
      else if prev = Null
      then Inr \<lparr>hasChanged = True, previous = Null, current = cur\<rparr>
      else (case get_prop prev ''date'' of
              Inl e \<Rightarrow> Inl e
            | Inr d \<Rightarrow>
                if \<not> truthy d
                then Inl (Error ''Invalid previous data: missing date field'')
                else Inr \<lparr>hasChanged = (\<not> strict_eq d (field cur ''date'')),
                          previous = prev, current = cur\<rparr>))"

text \<open>The \<^verbatim>\<open>catch\<close> block re-throws every error with the prefix.\<close>

definition compareData :: "jsval \<Rightarrow> jsval \<Rightarrow> js_error + ComparisonResult" where
  "compareData prev cur =
     (case compareData_try prev cur of
        Inl e \<Rightarrow> Inl (Error (''Comparison failed: '' @ message e))
      | Inr r \<Rightarrow> Inr r)"

section \<open>The world outside the process\<close>

text \<open>
  What a run does to the outside is recorded in a state that every operation takes and
  returns: the files (a map from path to content), the file-system calls in the order
  they were made, the lines given to the logger, the delays slept, the attempt numbers
  handed to the browser, and the requests posted to the notification service.
\<close>

datatype log_entry = LogChange jsval | LogNoChange | LogError js_error string

datatype fs_op =
    Mkdir string
  | WriteFile string string
  | Rename string string
  | ReadFile string
  | Unlink string

record world =
  files :: "string \<Rightarrow> string option"
  fs_ops :: "fs_op list"
  console :: "log_entry list"
  sleeps :: "number list"
  scrapes :: "int list"
  posts :: "(string \<times> string) list"

record ScraperConfig =
  url :: string
  timeout :: int
  retries :: int
  retryDelay :: number

record StorageConfig =
  dataFilePath :: string

record NotificationConfig =
  channel :: string

record Config =
  scraper :: ScraperConfig
  storage :: StorageConfig
  ntfy :: NotificationConfig

text \<open>
  How the outside answers in one run: what each browser attempt yields
  (\<^verbatim>\<open>attemptScrape\<close> is the opaque page extraction), whether the notification request
  is rejected, and which file-system calls fail. A failing \<^verbatim>\<open>writeFile\<close> may leave
  anything at the path it was writing (\<open>None\<close>: no file).
\<close>

record env =
  attemptScrape :: "ScraperConfig \<Rightarrow> int \<Rightarrow> js_error + jsval"
  fetch_rejects :: "string \<Rightarrow> string \<Rightarrow> js_error option"
  mkdir_fails :: "string \<Rightarrow> js_error option"
  writeFile_fails :: "string \<Rightarrow> (js_error \<times> string option) option"
  rename_fails :: "string \<Rightarrow> string \<Rightarrow> js_error option"
  readFile_fails :: "string \<Rightarrow> js_error option"
  unlink_fails :: "string \<Rightarrow> js_error option"

subsection \<open>logger.ts\<close>

definition logChange :: "jsval \<Rightarrow> world \<Rightarrow> world" where
  "logChange data w = w\<lparr>console := console w @ [LogChange data]\<rparr>"

definition logNoChange :: "world \<Rightarrow> world" where
  "logNoChange w = w\<lparr>console := console w @ [LogNoChange]\<rparr>"

definition logError :: "js_error \<Rightarrow> string \<Rightarrow> world \<Rightarrow> world" where
  "logError error context w = w\<lparr>console := console w @ [LogError error context]\<rparr>"

subsection \<open>fs/promises\<close>

text \<open>Each call returns what it throws (\<open>Some\<close> or \<open>Inl\<close>) or its result.\<close>

definition ENOENT :: "string \<Rightarrow> js_error" where
  "ENOENT path = ErrnoException ''ENOENT'' (''ENOENT: no such file or directory, '' @ path)"

definition fs_mkdir :: "env \<Rightarrow> string \<Rightarrow> world \<Rightarrow> js_error option \<times> world" where
  "fs_mkdir E dir w = (mkdir_fails E dir, w\<lparr>fs_ops := fs_ops w @ [Mkdir dir]\<rparr>)"

definition fs_writeFile :: "env \<Rightarrow> string \<Rightarrow> string \<Rightarrow> world \<Rightarrow> js_error option \<times> world" where
  "fs_writeFile E path content w =
     (case writeFile_fails E path of
        Some (err, residue) \<Rightarrow>
          (Some err, w\<lparr>files := (files w)(path := residue),
                        fs_ops := fs_ops w @ [WriteFile path content]\<rparr>)
      | None \<Rightarrow>
          (None, w\<lparr>files := (files w)(path \<mapsto> content),
                    fs_ops := fs_ops w @ [WriteFile path content]\<rparr>))"

text \<open>\<^verbatim>\<open>rename\<close> replaces the destination in one step or changes nothing.\<close>

definition fs_rename :: "env \<Rightarrow> string \<Rightarrow> string \<Rightarrow> world \<Rightarrow> js_error option \<times> world" where
  "fs_rename E src dst w =
     (let w' = w\<lparr>fs_ops := fs_ops w @ [Rename src dst]\<rparr> in
      case rename_fails E src dst of
        Some err \<Rightarrow> (Some err, w')
      | None \<Rightarrow>
          (case files w src of
             None \<Rightarrow> (Some (ENOENT src), w')
           | Some c \<Rightarrow>
               if src = dst then (None, w')
               else (None, w'\<lparr>files := (files w)(dst \<mapsto> c, src := None)\<rparr>)))"

definition fs_readFile :: "env \<Rightarrow> string \<Rightarrow> world \<Rightarrow> (js_error + string) \<times> world" where
  "fs_readFile E path w =
     (let w' = w\<lparr>fs_ops := fs_ops w @ [ReadFile path]\<rparr> in
      case readFile_fails E path of
        Some err \<Rightarrow> (Inl err, w')
      | None \<Rightarrow>
          (case files w path of
             None \<Rightarrow> (Inl (ENOENT path), w')
           | Some c \<Rightarrow> (Inr c, w')))"

definition fs_unlink :: "env \<Rightarrow> string \<Rightarrow> world \<Rightarrow> js_error option \<times> world" where
  "fs_unlink E path w =
     (let w' = w\<lparr>fs_ops := fs_ops w @ [Unlink path]\<rparr> in
      case unlink_fails E path of
        Some err \<Rightarrow> (Some err, w')
      | None \<Rightarrow>
          (case files w path of
             None \<Rightarrow> (Some (ENOENT path), w')
           | Some c \<Rightarrow> (None, w'\<lparr>files := (files w)(path := None)\<rparr>)))"

section \<open>storage.ts\<close>

text \<open>The \<^verbatim>\<open>try\<close> block of \<^verbatim>\<open>readStoredData\<close>: \<open>Inl\<close> is what it throws.\<close>

definition readStoredData_try ::
  "platform \<Rightarrow> env \<Rightarrow> StorageConfig \<Rightarrow> world \<Rightarrow> (js_error + jsval) \<times> world" where
  "readStoredData_try P E config w =
     (case fs_readFile E (dataFilePath config) w of
        (Inl err, w1) \<Rightarrow> (Inl err, w1)
      | (Inr content, w1) \<Rightarrow>
          (case JSON_parse P content of
             Inl msg \<Rightarrow> (Inl (SyntaxError msg), w1)
           | Inr data \<Rightarrow>
               (case get_prop data ''date'' of
                  Inl err \<Rightarrow> (Inl err, w1)
                | Inr d \<Rightarrow>
                    if \<not> truthy d \<or> typeof (field data ''invitations'') \<noteq> ''number''
                       \<or> typeof (field data ''crsScore'') \<noteq> ''number''
                    then (Inr Null,
                          logError (Error ''Invalid data structure in storage file'')
                            (''Storage file '' @ dataFilePath config @ '' contains invalid data structure'') w1)
                    else (Inr data, w1))))"

text \<open>
  The "basic validation" of \<^verbatim>\<open>readStoredData\<close>, named: the decoded value passes it when
  the condition of that \<^verbatim>\<open>if\<close> is false.
\<close>

definition basic_structure :: "jsval \<Rightarrow> bool" where
  "basic_structure data =
     (truthy (field data ''date'') \<and> typeof (field data ''invitations'') = ''number''
      \<and> typeof (field data ''crsScore'') = ''number'')"

text \<open>The \<^verbatim>\<open>catch\<close> block: every branch returns \<^verbatim>\<open>null\<close>.\<close>

definition readStoredData_catch :: "js_error \<Rightarrow> StorageConfig \<Rightarrow> world \<Rightarrow> jsval \<times> world" where
  "readStoredData_catch error config w =
     (if code error = Some ''ENOENT'' then (Null, w)
      else if instanceof_SyntaxError error
      then (Null, logError error (''Failed to parse JSON from storage file '' @ dataFilePath config) w)
      else (Null, logError error (''Error reading stored data from '' @ dataFilePath config) w))"

definition readStoredData :: "platform \<Rightarrow> env \<Rightarrow> StorageConfig \<Rightarrow> world \<Rightarrow> jsval \<times> world" where
  "readStoredData P E config w =
     (case readStoredData_try P E config w of
        (Inl error, w1) \<Rightarrow> readStoredData_catch error config w1
      | (Inr v, w1) \<Rightarrow> (v, w1))"

text \<open>The clean-up after a failed rename: its own errors are ignored.\<close>

definition cleanup_temp :: "env \<Rightarrow> string \<Rightarrow> world \<Rightarrow> world" where
  "cleanup_temp E tempPath w =
     (case fs_readFile E tempPath w of
        (Inl err, w1) \<Rightarrow> w1
      | (Inr c, w1) \<Rightarrow> snd (fs_unlink E tempPath w1))"

text \<open>The outer \<^verbatim>\<open>try\<close> block of \<^verbatim>\<open>writeStoredData\<close>: \<open>Some\<close> is what it throws.\<close>

definition writeStoredData_try ::
  "platform \<Rightarrow> env \<Rightarrow> StorageConfig \<Rightarrow> jsval \<Rightarrow> world \<Rightarrow> js_error option \<times> world" where
  "writeStoredData_try P E config data w =
     (let tempPath = dataFilePath config @ ''.tmp'';
          dir = dirname P (dataFilePath config) in
      case fs_mkdir E dir w of
        (Some err, w1) \<Rightarrow>
          (Some (Error (''Failed to create directory '' @ dir @ '': '' @ message err)), w1)
      | (None, w1) \<Rightarrow>
          (let content = JSON_stringify P data 2 in
           case fs_writeFile E tempPath content w1 of
             (Some err, w2) \<Rightarrow>
               (Some (Error (''Failed to write to temporary file '' @ tempPath @ '': '' @ message err)), w2)
           | (None, w2) \<Rightarrow>
               (case fs_rename E tempPath (dataFilePath config) w2 of
                  (Some err, w3) \<Rightarrow>
                    (Some (Error (''Failed to rename temporary file to '' @ dataFilePath config
                                   @ '': '' @ message err)),
                     cleanup_temp E tempPath w3)
                | (None, w3) \<Rightarrow> (None, w3))))"

definition writeStoredData ::
  "platform \<Rightarrow> env \<Rightarrow> StorageConfig \<Rightarrow> jsval \<Rightarrow> world \<Rightarrow> js_error option \<times> world" where
  "writeStoredData P E config data w =
     (case writeStoredData_try P E config data w of
        (Some error, w1) \<Rightarrow>
          (Some error,
           logError error (''Error writing stored data to '' @ dataFilePath config
                           @ '' - existing data preserved'') w1)
      | (None, w1) \<Rightarrow> (None, w1))"

text \<open>
  What the engine promises of its JSON functions for a value: parsing what
  \<^verbatim>\<open>JSON.stringify(v, null, 2)\<close> printed yields a value deep-equal to \<open>v\<close>.
\<close>

definition json_round_trips :: "platform \<Rightarrow> jsval \<Rightarrow> bool" where
  "json_round_trips P v =
     (case JSON_parse P (JSON_stringify P v 2) of
        Inl msg \<Rightarrow> False
      | Inr v' \<Rightarrow> deep_equal v' v)"

section \<open>scraper.ts\<close>

text \<open>
  An integer inside a template string: its decimal digits. The engine writes an integer so
  below \<open>10 ^ 21\<close>, and in exponent form from there.
\<close>

fun show_nat :: "nat \<Rightarrow> string" where
  "show_nat n =
     (if n < 10 then [char_of (48 + n)]
      else show_nat (n div 10) @ [char_of (48 + n mod 10)])"

declare show_nat.simps [simp del]

definition show_int :: "int \<Rightarrow> string" where
  "show_int i = (if i < 0 then CHR ''-'' # show_nat (nat (- i)) else show_nat (nat i))"

text \<open>\<^verbatim>\<open>await new Promise(resolve => setTimeout(resolve, delay))\<close>.\<close>

definition sleep :: "number \<Rightarrow> world \<Rightarrow> world" where
  "sleep delay w = w\<lparr>sleeps := sleeps w @ [delay]\<rparr>"

text \<open>
  The \<^verbatim>\<open>for\<close> loop of \<^verbatim>\<open>scrapeHealthcareRound\<close>, from the attempt it is about to make
  and the \<^verbatim>\<open>lastError\<close> it holds: it leaves by the \<^verbatim>\<open>return data\<close> inside, or by its
  condition becoming false. The counter and \<^verbatim>\<open>retries\<close> are integers, which a double
  counts through one by one below \<open>2 ^ 53\<close>; the delay is the product of doubles the
  code computes.
\<close>

datatype loop_exit = Returned jsval | Exhausted "js_error option"

function scrape_loop ::
  "env \<Rightarrow> ScraperConfig \<Rightarrow> int \<Rightarrow> js_error option \<Rightarrow> world \<Rightarrow> loop_exit \<times> world" where
  "scrape_loop E config attempt lastError w =
     (if attempt \<le> retries config then
        (case attemptScrape E config attempt of
           Inr data \<Rightarrow> (Returned data, w\<lparr>scrapes := scrapes w @ [attempt]\<rparr>)
         | Inl err \<Rightarrow>
             scrape_loop E config (attempt + 1) (Some err)
               ((if attempt < retries config
                 then sleep (number_times (retryDelay config) (Math_pow2 (attempt - 1)))
                 else id)
                  (logError err
                     (''Scraping attempt '' @ show_int attempt @ ''/'' @ show_int (retries config)
                      @ '' failed'')
                     (w\<lparr>scrapes := scrapes w @ [attempt]\<rparr>))))
      else (Exhausted lastError, w))"
  by pat_completeness auto
termination
  by (relation "measure (\<lambda>(E, config, attempt, lastError, w). nat (retries config + 1 - attempt))") auto

declare scrape_loop.simps [simp del]

definition scrapeHealthcareRound :: "env \<Rightarrow> ScraperConfig \<Rightarrow> world \<Rightarrow> jsval \<times> world" where
  "scrapeHealthcareRound E config w =
     (case scrape_loop E config 1 None w of
        (Returned data, w1) \<Rightarrow> (data, w1)
      | (Exhausted lastError, w1) \<Rightarrow>
          (Null,
           logError (case lastError of Some err \<Rightarrow> err | None \<Rightarrow> Error ''Unknown error'')
             (''All '' @ show_int (retries config) @ '' scraping attempts failed'') w1))"

text \<open>
  The delay the loop asks for after a failed attempt, the context it logs with the
  failure, and the world after the attempts \<open>a\<close> to \<open>b\<close> have all failed: every
  attempt recorded and logged with its cause, and a sleep after each but the last one the
  configuration allows.
\<close>

definition backoff :: "ScraperConfig \<Rightarrow> int \<Rightarrow> number" where
  "backoff config attempt = number_times (retryDelay config) (Math_pow2 (attempt - 1))"

definition attempt_context :: "ScraperConfig \<Rightarrow> int \<Rightarrow> string" where
  "attempt_context config attempt =
     ''Scraping attempt '' @ show_int attempt @ ''/'' @ show_int (retries config) @ '' failed''"

definition cause :: "env \<Rightarrow> ScraperConfig \<Rightarrow> int \<Rightarrow> js_error" where
  "cause E config attempt = (case attemptScrape E config attempt of Inl err \<Rightarrow> err | Inr data \<Rightarrow> Error [])"

definition after_failures :: "env \<Rightarrow> ScraperConfig \<Rightarrow> int \<Rightarrow> int \<Rightarrow> world \<Rightarrow> world" where
  "after_failures E config a b w =
     w\<lparr>scrapes := scrapes w @ [a..b],
       console := console w @ map (\<lambda>i. LogError (cause E config i) (attempt_context config i)) [a..b],
       sleeps := sleeps w @ map (backoff config) [a..min b (retries config - 1)]\<rparr>"

section \<open>controller.ts\<close>

text \<open>\<^verbatim>\<open>await fetch(url, {method: 'POST', body})\<close>: \<open>Some\<close> is the rejection.\<close>

definition js_fetch :: "env \<Rightarrow> string \<Rightarrow> string \<Rightarrow> world \<Rightarrow> js_error option \<times> world" where
  "js_fetch E u body w = (fetch_rejects E u body, w\<lparr>posts := posts w @ [(u, body)]\<rparr>)"

text \<open>The \<^verbatim>\<open>try\<close> block of \<^verbatim>\<open>runMonitor\<close>: \<open>Some\<close> is what it throws.\<close>

definition runMonitor_try :: "platform \<Rightarrow> env \<Rightarrow> Config \<Rightarrow> world \<Rightarrow> js_error option \<times> world" where
  "runMonitor_try P E config w =
     (case readStoredData P E (storage config) w of
        (previousData, w1) \<Rightarrow>
     (case scrapeHealthcareRound E (scraper config) w1 of
        (currentData, w2) \<Rightarrow>
      if currentData = Null
      then (Some (Error ''Scraping failed after all retry attempts''),
            logError (Error ''Scraping failed after all retry attempts'')
              ''Failed to retrieve current healthcare round data'' w2)
      else
       (case compareData previousData currentData of
          Inl err \<Rightarrow> (Some err, w2)
        | Inr comparisonResult \<Rightarrow>
            if hasChanged comparisonResult
            then
              (case js_fetch E (''https://ntfy.sh/'' @ channel (ntfy config))
                      (JSON_stringify P currentData 0) (logChange currentData w2) of
                 (Some err, w3) \<Rightarrow> (Some err, w3)
               | (None, w3) \<Rightarrow>
                   (case writeStoredData P E (storage config) currentData w3 of
                      (Some err, w4) \<Rightarrow>
                        (Some (Error ''Failed to update storage after detecting change''),
                         logError err ''Failed to update storage after detecting change'' w4)
                    | (None, w4) \<Rightarrow> (None, w4)))
            else (None, logNoChange w2))))"

text \<open>The \<^verbatim>\<open>catch\<close> block logs and throws \<^verbatim>\<open>new Error(error)\<close>.\<close>

definition runMonitor :: "platform \<Rightarrow> env \<Rightarrow> Config \<Rightarrow> world \<Rightarrow> js_error option \<times> world" where
  "runMonitor P E config w =
     (case runMonitor_try P E config w of
        (Some error, w1) \<Rightarrow>
          (Some (Error (error_to_string error)),
           logError error ''Unexpected error in monitor orchestration'' w1)
      | (None, w1) \<Rightarrow> (None, w1))"

section \<open>The calendar\<close>

text \<open>
  A string in the form \<^verbatim>\<open>YYYY-MM-DD\<close> (four, two and two decimal digits, hyphens
  between), the three numbers it names, and the days of the Gregorian calendar.
\<close>

fun date_pattern :: "string \<Rightarrow> bool" where
  "date_pattern [y1, y2, y3, y4, h1, m1, m2, h2, d1, d2] =
     (list_all is_digit [y1, y2, y3, y4, m1, m2, d1, d2] \<and> h1 = CHR ''-'' \<and> h2 = CHR ''-'')"
| "date_pattern _ = False"

definition date_year :: "string \<Rightarrow> int" where
  "date_year s = int (decimal_value (take 4 s))"

definition date_month :: "string \<Rightarrow> int" where
  "date_month s = int (decimal_value (take 2 (drop 5 s)))"

definition date_day :: "string \<Rightarrow> int" where
  "date_day s = int (decimal_value (drop 8 s))"

definition leap_year :: "int \<Rightarrow> bool" where
  "leap_year y = ((y mod 4 = 0 \<and> y mod 100 \<noteq> 0) \<or> y mod 400 = 0)"

definition days_in_month :: "int \<Rightarrow> int \<Rightarrow> int" where
  "days_in_month y m =
     (if m = 2 then (if leap_year y then 29 else 28)
      else if m = 4 \<or> m = 6 \<or> m = 9 \<or> m = 11 then 30
      else 31)"

definition gregorian_date :: "int \<Rightarrow> int \<Rightarrow> int \<Rightarrow> bool" where
  "gregorian_date y m d = (1 \<le> m \<and> m \<le> 12 \<and> 1 \<le> d \<and> d \<le> days_in_month y m)"

text \<open>
  What the language standard fixes about \<^verbatim>\<open>new Date(string)\<close>: the UTC fields of a
  valid \<^verbatim>\<open>Date\<close> always name a day of the calendar (months count from 0), and a
  date-only string that names a day of the calendar is read as that day, in UTC.
  What an engine does with a date-only string that names no day is left open.
\<close>

definition conforming_new_Date :: "(string \<Rightarrow> Date option) \<Rightarrow> bool" where
  "conforming_new_Date f =
     ((\<forall>s date. f s = Some date \<longrightarrow>
          gregorian_date (getUTCFullYear date) (getUTCMonth date + 1) (getUTCDate date)) \<and>
      (\<forall>s. date_pattern s \<and> gregorian_date (date_year s) (date_month s) (date_day s) \<longrightarrow>
          f s = Some \<lparr>getUTCFullYear = date_year s, getUTCMonth = date_month s - 1,
                      getUTCDate = date_day s\<rparr>))"

section \<open>Engines and runs for the examples\<close>

text \<open>
  Two ways an engine may read a date-only string: a strict one, for which a day that the
  month does not have makes the date invalid, and a lenient one, which accepts any day up
  to 31 and counts the excess into the next month.
\<close>

definition strict_new_Date :: "string \<Rightarrow> Date option" where
  "strict_new_Date s =
     (if date_pattern s \<and> gregorian_date (date_year s) (date_month s) (date_day s)
      then Some \<lparr>getUTCFullYear = date_year s, getUTCMonth = date_month s - 1,
                 getUTCDate = date_day s\<rparr>
      else None)"

definition rollover_new_Date :: "string \<Rightarrow> Date option" where
  "rollover_new_Date s =
     (let y = date_year s; m = date_month s; d = date_day s in
      if date_pattern s \<and> 1 \<le> m \<and> m \<le> 12 \<and> 1 \<le> d \<and> d \<le> 31
      then (if d \<le> days_in_month y m
            then Some \<lparr>getUTCFullYear = y, getUTCMonth = m - 1, getUTCDate = d\<rparr>
            else if m = 12
            then Some \<lparr>getUTCFullYear = y + 1, getUTCMonth = 0, getUTCDate = d - days_in_month y m\<rparr>
            else Some \<lparr>getUTCFullYear = y, getUTCMonth = m, getUTCDate = d - days_in_month y m\<rparr>)
      else None)"

text \<open>
  Entries: the two of the comparison test, one with the date of the second and other
  counts, and one that the validation tests reject for its count of zero.
\<close>

definition make_entry :: "nat \<Rightarrow> string \<Rightarrow> rat \<Rightarrow> rat \<Rightarrow> jsval" where
  "make_entry a d i c =
     Obj a [(''date'', Str d), (''invitations'', Num (Finite i)), (''crsScore'', Num (Finite c))]"

definition entry_jan14 :: jsval where
  "entry_jan14 = make_entry 1 ''2024-01-14'' 100 400"

definition entry_jan15 :: jsval where
  "entry_jan15 = make_entry 2 ''2024-01-15'' 150 410"

definition entry_jan15_recount :: jsval where
  "entry_jan15_recount = make_entry 3 ''2024-01-15'' 9999 999"

definition entry_no_invitations :: jsval where
  "entry_no_invitations = make_entry 4 ''2024-01-15'' 0 431"

text \<open>The malformed entry of the error-handling tests: its date is the empty string.\<close>

definition entry_empty_date :: jsval where
  "entry_empty_date = make_entry 5 [] 100 400"

text \<open>
  Texts of stored files: what \<^verbatim>\<open>JSON.stringify(data, null, 2)\<close> writes for the entry of
  15 January, the same without indentation (the body of the notification), and a file
  that is valid JSON with a date that is no date and counts that are no counts.
\<close>

definition quoted :: "string \<Rightarrow> string" where
  "quoted s = CHR 0x22 # s @ [CHR 0x22]"

definition entry_text :: "string \<Rightarrow> string \<Rightarrow> string \<Rightarrow> string" where
  "entry_text d i c =
     ''{'' @ [CHR 0x0A] @
     ''  '' @ quoted ''date'' @ '': '' @ quoted d @ '','' @ [CHR 0x0A] @
     ''  '' @ quoted ''invitations'' @ '': '' @ i @ '','' @ [CHR 0x0A] @
     ''  '' @ quoted ''crsScore'' @ '': '' @ c @ [CHR 0x0A] @
     ''}''"

definition entry_text_compact :: "string \<Rightarrow> string \<Rightarrow> string \<Rightarrow> string" where
  "entry_text_compact d i c =
     ''{'' @ quoted ''date'' @ '':'' @ quoted d @ '','' @ quoted ''invitations'' @ '':'' @ i @ '',''
     @ quoted ''crsScore'' @ '':'' @ c @ ''}''"

definition jan14_text :: string where
  "jan14_text = entry_text ''2024-01-14'' ''100'' ''400''"

definition jan15_text :: string where
  "jan15_text = entry_text ''2024-01-15'' ''150'' ''410''"

definition unchecked_text :: string where
  "unchecked_text = entry_text_compact ''soon'' ''-5'' ''0.5''"

text \<open>The two broken files of the storage tests: one that is no JSON, one with a date only.\<close>

definition invalid_json_text :: string where
  "invalid_json_text = ''invalid json''"

definition date_only_text :: string where
  "date_only_text = ''{'' @ quoted ''date'' @ '':'' @ quoted ''2024-01-15'' @ ''}''"

definition unchecked_entry :: jsval where
  "unchecked_entry = make_entry 7 ''soon'' (- 5) (1 / 2)"

text \<open>
  An engine for the examples. Its \<^verbatim>\<open>JSON.parse\<close> and \<^verbatim>\<open>JSON.stringify\<close> are given by
  their answers on the texts and entries above, which are the answers of a real engine
  (a parsed object is a new allocation); the examples hand them nothing else.
\<close>

definition example_JSON_parse :: "string \<Rightarrow> string + jsval" where
  "example_JSON_parse s =
     (if s = jan14_text then Inr (make_entry 11 ''2024-01-14'' 100 400)
      else if s = jan15_text then Inr (make_entry 12 ''2024-01-15'' 150 410)
      else if s = unchecked_text then Inr unchecked_entry
      else if s = date_only_text then Inr (Obj 13 [(''date'', Str ''2024-01-15'')])
      else Inl ''JSON Parse error: Unexpected identifier'')"

definition example_JSON_stringify :: "jsval \<Rightarrow> nat \<Rightarrow> string" where
  "example_JSON_stringify v space =
     (if deep_equal v entry_jan14
      then (if space = 2 then jan14_text else entry_text_compact ''2024-01-14'' ''100'' ''400'')
      else if deep_equal v entry_jan15
      then (if space = 2 then jan15_text else entry_text_compact ''2024-01-15'' ''150'' ''410'')
      else ''{}'')"

definition example_dirname :: "string \<Rightarrow> string" where
  "example_dirname p =
     (let d = rev (drop 1 (dropWhile (\<lambda>c. c \<noteq> CHR ''/'') (rev p))) in
      if d = [] then ''.'' else d)"

definition strict_engine :: platform where
  "strict_engine =
     \<lparr>new_Date = strict_new_Date, JSON_parse = example_JSON_parse,
      JSON_stringify = example_JSON_stringify, dirname = example_dirname\<rparr>"

definition rollover_engine :: platform where
  "rollover_engine =
     \<lparr>new_Date = rollover_new_Date, JSON_parse = example_JSON_parse,
      JSON_stringify = example_JSON_stringify, dirname = example_dirname\<rparr>"

text \<open>
  The configuration of \<^verbatim>\<open>config.ts\<close> with no environment variable set, a world with no
  file and nothing done yet, and an outside in which no file-system call fails and the
  notification is accepted; what the browser attempts yield is given per example.
\<close>

definition default_config :: Config where
  "default_config =
     \<lparr>scraper = \<lparr>url = ''none'', timeout = 30000, retries = 3, retryDelay = Finite 1000\<rparr>,
      storage = \<lparr>dataFilePath = ''./last-draw-data.json''\<rparr>,
      ntfy = \<lparr>channel = ''none''\<rparr>\<rparr>"

text \<open>A source that fails at every attempt, with the cause its number gives.\<close>

definition failing_source :: "int \<Rightarrow> js_error + jsval" where
  "failing_source attempt =
     Inl (Error (''Network error navigating to none: attempt '' @ show_int attempt))"

text \<open>A source that fails at every attempt because the page has no table.\<close>

definition tableless_source :: "int \<Rightarrow> js_error + jsval" where
  "tableless_source attempt =
     Inl (Error ''Table element not found on page - page structure may have changed'')"

text \<open>A source that fails twice and then yields the entry of 15 January.\<close>

definition third_time_source :: "int \<Rightarrow> js_error + jsval" where
  "third_time_source attempt = (if attempt < 3 then failing_source attempt else Inr entry_jan15)"

text \<open>A source that yields the entry of 15 January at once.\<close>

definition first_time_source :: "int \<Rightarrow> js_error + jsval" where
  "first_time_source attempt = Inr entry_jan15"

text \<open>A source that yields, at once, the entry with the date of 15 January and other counts.\<close>

definition recount_source :: "int \<Rightarrow> js_error + jsval" where
  "recount_source attempt = Inr entry_jan15_recount"

definition empty_world :: world where
  "empty_world =
     \<lparr>files = (\<lambda>p. None), fs_ops = [], console = [], sleeps = [], scrapes = [], posts = []\<rparr>"

definition world_with_file :: "string \<Rightarrow> world" where
  "world_with_file content =
     empty_world\<lparr>files := (\<lambda>p. if p = ''./last-draw-data.json'' then Some content else None)\<rparr>"

definition world_with_jan14 :: world where
  "world_with_jan14 =
     empty_world\<lparr>files := (\<lambda>p. if p = ''./last-draw-data.json'' then Some jan14_text else None)\<rparr>"

definition world_with_unchecked :: world where
  "world_with_unchecked =
     empty_world\<lparr>files := (\<lambda>p. if p = ''./last-draw-data.json'' then Some unchecked_text else None)\<rparr>"

definition quiet_env :: "(int \<Rightarrow> js_error + jsval) \<Rightarrow> env" where
  "quiet_env outcome =
     \<lparr>attemptScrape = (\<lambda>config. outcome),
      fetch_rejects = (\<lambda>u body. None),
      mkdir_fails = (\<lambda>dir. None),
      writeFile_fails = (\<lambda>path. None),
      rename_fails = (\<lambda>src dst. None),
      readFile_fails = (\<lambda>path. None),
      unlink_fails = (\<lambda>path. None)\<rparr>"

text \<open>The same outside, but every \<^verbatim>\<open>rename\<close> is refused; and one with a full disk, where
  a write fails and leaves a truncated file.\<close>

definition rename_denied_env :: env where
  "rename_denied_env =
     (quiet_env failing_source)
       \<lparr>rename_fails := (\<lambda>src dst. Some (ErrnoException ''EACCES'' ''EACCES: permission denied, rename''))\<rparr>"

definition disk_full_env :: env where
  "disk_full_env =
     (quiet_env failing_source)
       \<lparr>writeFile_fails :=
          (\<lambda>path. Some (ErrnoException ''ENOSPC'' ''ENOSPC: no space left on device, write'', Some ''{''))\<rparr>"

text \<open>And one in which the notification service cannot be reached, while the source
  answers at once and the file system works.\<close>

definition notifier_down_env :: env where
  "notifier_down_env =
     (quiet_env first_time_source)\<lparr>fetch_rejects := (\<lambda>u body. Some (TypeError ''fetch failed''))\<rparr>"

section \<open>Dates\<close>

lemma date_pattern_shape:
  assumes "date_pattern s"
  obtains y1 y2 y3 y4 m1 m2 d1 d2 where
    "s = [y1, y2, y3, y4, CHR ''-'', m1, m2, CHR ''-'', d1, d2]"
    "is_digit y1" "is_digit y2" "is_digit y3" "is_digit y4"
    "is_digit m1" "is_digit m2" "is_digit d1" "is_digit d2"
  using assms by (cases s rule: date_pattern.cases) simp_all

lemma length_10_shape:
  assumes "length s = 10"
  obtains a b c d e f g h i j where "s = [a, b, c, d, e, f, g, h, i, j]"
  using assms by (auto simp: length_Suc_conv eval_nat_numeral)

lemma date_pattern_explicit:
  "date_pattern [a, b, c, d, e, f, g, h, i, j] =
     (list_all is_digit [a, b, c, d, f, g, i, j] \<and> e = CHR ''-'' \<and> h = CHR ''-'')"
  by (simp only: date_pattern.simps)

lemma isoDateRegex_test_explicit:
  "isoDateRegex_test [a, b, c, d, e, f, g, h, i, j] =
     (list_all is_digit [a, b, c, d, f, g, i, j] \<and> e = CHR ''-'' \<and> h = CHR ''-'')"
  unfolding isoDateRegex_test_def
  apply simp
  apply blast
  done

lemma date_pattern_length:
  assumes "date_pattern s"
  shows "length s = 10"
proof -
  from assms obtain y1 y2 y3 y4 m1 m2 d1 d2 where
    "s = [y1, y2, y3, y4, CHR ''-'', m1, m2, CHR ''-'', d1, d2]"
    by (rule date_pattern_shape)
  then show ?thesis by simp
qed

lemma regex_iff_pattern: "isoDateRegex_test s \<longleftrightarrow> date_pattern s"
proof (cases "length s = 10")
  case True
  then obtain a b c d e f g h i j where "s = [a, b, c, d, e, f, g, h, i, j]"
    by (rule length_10_shape)
  then show ?thesis by (simp only: date_pattern_explicit isoDateRegex_test_explicit)
next
  case False
  then have "\<not> date_pattern s" using date_pattern_length by blast
  then show ?thesis using False by (simp add: isoDateRegex_test_def)
qed

lemma digit_not_hyphen: "is_digit c \<Longrightarrow> c \<noteq> CHR ''-''"
  by (auto simp: is_digit_def)

lemma split_on_sep: "split_on c (c # xs) = [] # split_on c xs"
  by simp

lemma split_on_other: "x \<noteq> c \<Longrightarrow> split_on c xs = w # ws \<Longrightarrow> split_on c (x # xs) = (x # w) # ws"
  by simp

lemma split_date:
  assumes n: "y1 \<noteq> CHR ''-''" "y2 \<noteq> CHR ''-''" "y3 \<noteq> CHR ''-''" "y4 \<noteq> CHR ''-''"
    "m1 \<noteq> CHR ''-''" "m2 \<noteq> CHR ''-''" "d1 \<noteq> CHR ''-''" "d2 \<noteq> CHR ''-''"
  shows "split_on CHR ''-'' [y1, y2, y3, y4, CHR ''-'', m1, m2, CHR ''-'', d1, d2]
              = [[y1, y2, y3, y4], [m1, m2], [d1, d2]]"
proof -
  have 1: "split_on CHR ''-'' [d2] = [[d2]]" using n by simp
  have 2: "split_on CHR ''-'' [d1, d2] = [[d1, d2]]"
    by (rule split_on_other [OF n(7) 1])
  have 3: "split_on CHR ''-'' [CHR ''-'', d1, d2] = [[], [d1, d2]]"
    by (simp only: split_on_sep 2)
  have 4: "split_on CHR ''-'' [m2, CHR ''-'', d1, d2] = [[m2], [d1, d2]]"
    by (rule split_on_other [OF n(6) 3])
  have 5: "split_on CHR ''-'' [m1, m2, CHR ''-'', d1, d2] = [[m1, m2], [d1, d2]]"
    by (rule split_on_other [OF n(5) 4])
  have 6: "split_on CHR ''-'' [CHR ''-'', m1, m2, CHR ''-'', d1, d2] = [[], [m1, m2], [d1, d2]]"
    by (simp only: split_on_sep 5)
  have 7: "split_on CHR ''-'' [y4, CHR ''-'', m1, m2, CHR ''-'', d1, d2] = [[y4], [m1, m2], [d1, d2]]"
    by (rule split_on_other [OF n(4) 6])
  have 8: "split_on CHR ''-'' [y3, y4, CHR ''-'', m1, m2, CHR ''-'', d1, d2]
             = [[y3, y4], [m1, m2], [d1, d2]]"
    by (rule split_on_other [OF n(3) 7])
  have 9: "split_on CHR ''-'' [y2, y3, y4, CHR ''-'', m1, m2, CHR ''-'', d1, d2]
             = [[y2, y3, y4], [m1, m2], [d1, d2]]"
    by (rule split_on_other [OF n(2) 8])
  show ?thesis
    by (rule split_on_other [OF n(1) 9])
qed

lemma js_Number_digits: "s \<noteq> [] \<Longrightarrow> list_all is_digit s \<Longrightarrow> js_Number s = Finite (of_nat (decimal_value s))"
  by (simp add: js_Number_def)

lemma pattern_parts:
  assumes "date_pattern s"
  shows "map js_Number (split_on CHR ''-'' s) =
           [Finite (of_int (date_year s)), Finite (of_int (date_month s)), Finite (of_int (date_day s))]"
proof (cases s rule: date_pattern.cases)
  case (1 y1 y2 y3 y4 h1 m1 m2 h2 d1 d2)
  with assms have h: "h1 = CHR ''-''" "h2 = CHR ''-''"
    and d: "is_digit y1" "is_digit y2" "is_digit y3" "is_digit y4"
    "is_digit m1" "is_digit m2" "is_digit d1" "is_digit d2"
    by simp_all
  have s: "s = [y1, y2, y3, y4, CHR ''-'', m1, m2, CHR ''-'', d1, d2]"
    using 1 h by simp
  note sp = split_date [OF d [THEN digit_not_hyphen]]
  have y: "js_Number [y1, y2, y3, y4] = Finite (of_int (date_year s))"
    using d by (simp add: js_Number_digits date_year_def s)
  have m: "js_Number [m1, m2] = Finite (of_int (date_month s))"
    using d by (simp add: js_Number_digits date_month_def s)
  have dd: "js_Number [d1, d2] = Finite (of_int (date_day s))"
    using d by (simp add: js_Number_digits date_day_def s)
  have "split_on CHR ''-'' s = [[y1, y2, y3, y4], [m1, m2], [d1, d2]]"
    unfolding s by (rule sp)
  then show ?thesis by (simp only: list.map y m dd)
qed (use assms in simp_all)

lemma of_int_minus_one_eq: "(rat_of_int a = rat_of_int b - 1) = (a = b - 1)"
proof -
  have "rat_of_int b - 1 = rat_of_int (b - 1)" by (simp only: of_int_diff of_int_1)
  then show ?thesis by (simp only: of_int_eq_iff)
qed

lemma isValidISODate_fields: 
  assumes "date_pattern s" "new_Date P s = Some date"
  shows "isValidISODate P s \<longleftrightarrow>
            getUTCFullYear date = date_year s \<and> getUTCMonth date = date_month s - 1 \<and> getUTCDate date = date_day s"
  using assms
  apply (simp add: isValidISODate_def regex_iff_pattern pattern_parts number_eq_def)
  apply (simp only: of_int_minus_one_eq)
  done

lemma isValidISODate_new_Date:
  "isValidISODate P s \<longleftrightarrow>
     date_pattern s \<and> new_Date P s = Some \<lparr>getUTCFullYear = date_year s, getUTCMonth = date_month s - 1, getUTCDate = date_day s\<rparr>"
proof (cases "date_pattern s")
  case False
  then show ?thesis by (simp add: isValidISODate_def regex_iff_pattern)
next
  case True
  show ?thesis
  proof (cases "new_Date P s")
    case None
    then show ?thesis by (simp add: isValidISODate_def regex_iff_pattern)
  next
    case (Some date)
    show ?thesis using True Some isValidISODate_fields [OF True Some] by (cases date) simp
  qed
qed


lemmas date_eval =
  is_digit_def digit_value_def decimal_value_def date_year_def date_month_def date_day_def
  gregorian_date_def days_in_month_def leap_year_def

lemma strict_new_Date_conforming: "conforming_new_Date strict_new_Date"
  unfolding conforming_new_Date_def strict_new_Date_def
  by (auto split: if_splits)

lemma days_in_month_bounds: "28 \<le> days_in_month y m \<and> days_in_month y m \<le> 31"
  by (simp add: days_in_month_def)

lemma rollover_new_Date_conforming: "conforming_new_Date rollover_new_Date"
proof -
  have a: "gregorian_date (getUTCFullYear date) (getUTCMonth date + 1) (getUTCDate date)"
    if "rollover_new_Date s = Some date" for s date
  proof -
    define y m d where "y = date_year s" and "m = date_month s" and "d = date_day s"
    have r: "1 \<le> m" "m \<le> 12" "1 \<le> d" "d \<le> 31"
      using that unfolding rollover_new_Date_def y_def m_def d_def
      by (simp_all add: Let_def split: if_splits)
    show ?thesis
    proof (cases "d \<le> days_in_month y m")
      case True
      then have "date = \<lparr>getUTCFullYear = y, getUTCMonth = m - 1, getUTCDate = d\<rparr>"
        using that r unfolding rollover_new_Date_def y_def m_def d_def
        by (simp add: Let_def split: if_splits)
      then show ?thesis using True r by (simp add: gregorian_date_def)
    next
      case False
      then have m12: "m \<noteq> 12" using r by (auto simp: days_in_month_def)
      from False m12 have "date = \<lparr>getUTCFullYear = y, getUTCMonth = m, getUTCDate = d - days_in_month y m\<rparr>"
        using that r unfolding rollover_new_Date_def y_def m_def d_def
        by (simp add: Let_def split: if_splits)
      moreover have "1 \<le> d - days_in_month y m" using False by simp
      moreover have "d - days_in_month y m \<le> 3"
        using r days_in_month_bounds [of y m] by simp
      moreover have "28 \<le> days_in_month y (m + 1)" using days_in_month_bounds by simp
      ultimately show ?thesis using r m12 by (simp add: gregorian_date_def)
    qed
  qed
  have b: "rollover_new_Date s = Some \<lparr>getUTCFullYear = date_year s, getUTCMonth = date_month s - 1,
                      getUTCDate = date_day s\<rparr>"
    if "date_pattern s" "gregorian_date (date_year s) (date_month s) (date_day s)" for s
    using that days_in_month_bounds [of "date_year s" "date_month s"]
    by (simp add: rollover_new_Date_def gregorian_date_def)
  show ?thesis unfolding conforming_new_Date_def using a b by blast
qed

text \<open>
  C9. On an engine whose \<^verbatim>\<open>new Date\<close> conforms to the standard, \<open>isValidISODate\<close> is
  true of a string exactly when the string has the form \<^verbatim>\<open>YYYY-MM-DD\<close> and names a day
  of the Gregorian calendar; in particular 2024-02-29 is accepted and 2023-02-29,
  2024-02-30 and 2024-13-01 are rejected.
\<close>

theorem isValidISODate_iff_gregorian:
  assumes "conforming_new_Date (new_Date P)"
  shows "(\<forall>s. isValidISODate P s \<longleftrightarrow>
              date_pattern s \<and> gregorian_date (date_year s) (date_month s) (date_day s))
         \<and> isValidISODate P ''2024-02-29''
         \<and> \<not> isValidISODate P ''2023-02-29''
         \<and> \<not> isValidISODate P ''2024-02-30''
         \<and> \<not> isValidISODate P ''2024-13-01''"
proof -
  have iff: "isValidISODate P s \<longleftrightarrow>
               date_pattern s \<and> gregorian_date (date_year s) (date_month s) (date_day s)" for s
  proof
    assume "isValidISODate P s"
    then have p: "date_pattern s"
      and d: "new_Date P s = Some \<lparr>getUTCFullYear = date_year s, getUTCMonth = date_month s - 1,
                                    getUTCDate = date_day s\<rparr>"
      by (simp_all add: isValidISODate_new_Date)
    from assms d have "gregorian_date (date_year s) (date_month s - 1 + 1) (date_day s)"
      unfolding conforming_new_Date_def by fastforce
    then show "date_pattern s \<and> gregorian_date (date_year s) (date_month s) (date_day s)"
      using p by simp
  next
    assume "date_pattern s \<and> gregorian_date (date_year s) (date_month s) (date_day s)"
    then show "isValidISODate P s"
      using assms unfolding conforming_new_Date_def by (simp add: isValidISODate_new_Date)
  qed
  show ?thesis
    unfolding iff by (simp add: date_eval)
qed

theorem isValidISODate_iff_gregorian_witness:
  "conforming_new_Date (new_Date rollover_engine)
   \<and> isValidISODate rollover_engine ''2024-02-29''
   \<and> isValidISODate rollover_engine ''2023-12-31''
   \<and> \<not> isValidISODate rollover_engine ''2024-02-30''
   \<and> \<not> isValidISODate rollover_engine ''2024/01/15''
   \<and> rollover_new_Date ''2024-02-30'' = Some \<lparr>getUTCFullYear = 2024, getUTCMonth = 2, getUTCDate = 1\<rparr>"
proof -
  have c: "conforming_new_Date (new_Date rollover_engine)"
    by (simp add: rollover_engine_def rollover_new_Date_conforming)
  have r: "rollover_new_Date ''2024-02-30'' = Some \<lparr>getUTCFullYear = 2024, getUTCMonth = 2, getUTCDate = 1\<rparr>"
    by (simp add: rollover_new_Date_def date_eval)
  show ?thesis
    using c r isValidISODate_iff_gregorian [OF c] by (simp add: date_eval)
qed




section \<open>Comparison\<close>

lemmas entry_eval =
  make_entry_def entry_jan14_def entry_jan15_def entry_jan15_recount_def
  entry_no_invitations_def entry_empty_date_def unchecked_entry_def

lemmas validity_eval =
  isValidInvitationData_def isValidISODate_new_Date isPositiveInteger_def
  strict_engine_def strict_new_Date_def date_eval

lemma isValidISODate_nonempty: "isValidISODate P s \<Longrightarrow> s \<noteq> []"
  by (auto simp: isValidISODate_def isoDateRegex_test_def split: if_splits)

lemma valid_date_field:
  "isValidInvitationData P v \<Longrightarrow> \<exists>s. field v ''date'' = Str s \<and> isValidISODate P s"
  by (auto simp: isValidInvitationData_def split: if_splits jsval.splits)

lemma valid_truthy_date:
  assumes "isValidInvitationData P v"
  shows "truthy (field v ''date'')"
  using valid_date_field [OF assms] isValidISODate_nonempty by fastforce

lemma valid_truthy: "isValidInvitationData P v \<Longrightarrow> truthy v"
  by (auto simp: isValidInvitationData_def split: if_splits)

lemma truthy_field_get_prop: "truthy (field v k) \<Longrightarrow> get_prop v k = Inr (field v k)"
  by (cases v) simp_all

lemma truthy_field_truthy: "truthy (field v k) \<Longrightarrow> truthy v"
  by (cases v) simp_all

lemma compareData_cases:
  "compareData prev cur =
     (if \<not> truthy (field cur ''date'')
      then Inl (Error ''Comparison failed: Invalid current data: missing date field'')
      else if prev = Null
      then Inr \<lparr>hasChanged = True, previous = Null, current = cur\<rparr>
      else if prev = Undefined
      then Inl (Error (''Comparison failed: '' @ ''Cannot read properties of undefined (reading date)''))
      else if \<not> truthy (field prev ''date'')
      then Inl (Error ''Comparison failed: Invalid previous data: missing date field'')
      else Inr \<lparr>hasChanged = (\<not> strict_eq (field prev ''date'') (field cur ''date'')),
                previous = prev, current = cur\<rparr>)"
proof (cases "truthy (field cur ''date'')")
  case False
  then show ?thesis by (simp add: compareData_def compareData_try_def)
next
  case True
  then have tc: "truthy cur" by (rule truthy_field_truthy)
  show ?thesis
  proof (cases "truthy (field prev ''date'')")
    case t: True
    then have "prev \<noteq> Null" "prev \<noteq> Undefined" by auto
    then show ?thesis using True tc t truthy_field_get_prop [OF t]
      by (simp add: compareData_def compareData_try_def)
  next
    case f: False
    show ?thesis using True tc f
      by (cases prev) (simp_all add: compareData_def compareData_try_def)
  qed
qed

text \<open>
  C2. For a current entry that satisfies \<open>isValidInvitationData\<close> and a previous one that
  is \<^verbatim>\<open>null\<close> or satisfies it, \<open>compareData\<close> returns the two unchanged, with
  \<open>hasChanged\<close> true when the previous one is \<^verbatim>\<open>null\<close> and otherwise true exactly when
  the dates differ; the counts play no part.
\<close>

theorem compareData_valid:
  assumes "isValidInvitationData P cur"
    and "prev = Null \<or> isValidInvitationData P prev"
  shows "compareData prev cur =
           Inr \<lparr>hasChanged = (prev = Null \<or> field prev ''date'' \<noteq> field cur ''date''),
                previous = prev, current = cur\<rparr>"
proof -
  obtain s where s: "field cur ''date'' = Str s" "s \<noteq> []"
    using valid_date_field [OF assms(1)] isValidISODate_nonempty by blast
  show ?thesis
  proof (cases "prev = Null")
    case True
    then show ?thesis using s by (simp add: compareData_cases)
  next
    case False
    then have vp: "isValidInvitationData P prev" using assms(2) by simp
    obtain t where t: "field prev ''date'' = Str t" "t \<noteq> []"
      using valid_date_field [OF vp] isValidISODate_nonempty by blast
    have "prev \<noteq> Undefined" using t by auto
    then show ?thesis using False s t by (simp add: compareData_cases)
  qed
qed

theorem compareData_valid_witness:
  "isValidInvitationData strict_engine entry_jan15_recount
   \<and> isValidInvitationData strict_engine entry_jan15
   \<and> compareData entry_jan15 entry_jan15_recount =
       Inr \<lparr>hasChanged = False, previous = entry_jan15, current = entry_jan15_recount\<rparr>
   \<and> isValidInvitationData strict_engine entry_jan14
   \<and> compareData entry_jan14 entry_jan15 =
       Inr \<lparr>hasChanged = True, previous = entry_jan14, current = entry_jan15\<rparr>
   \<and> compareData Null entry_jan15 =
       Inr \<lparr>hasChanged = True, previous = Null, current = entry_jan15\<rparr>"
proof -
  have a: "isValidInvitationData strict_engine entry_jan15_recount"
    by (simp add: entry_eval validity_eval)
  have b: "isValidInvitationData strict_engine entry_jan15"
    by (simp add: entry_eval validity_eval)
  have c: "isValidInvitationData strict_engine entry_jan14"
    by (simp add: entry_eval validity_eval)
  have 1: "compareData entry_jan15 entry_jan15_recount =
       Inr \<lparr>hasChanged = False, previous = entry_jan15, current = entry_jan15_recount\<rparr>"
    using compareData_valid [OF a, of entry_jan15] b by (simp add: entry_eval)
  have 2: "compareData entry_jan14 entry_jan15 =
       Inr \<lparr>hasChanged = True, previous = entry_jan14, current = entry_jan15\<rparr>"
    using compareData_valid [OF b, of entry_jan14] c by (simp add: entry_eval)
  have 3: "compareData Null entry_jan15 =
       Inr \<lparr>hasChanged = True, previous = Null, current = entry_jan15\<rparr>"
    using compareData_valid [OF b, of Null] by simp
  show ?thesis using a b c 1 2 3 by simp
qed

text \<open>
  C3, as the code has it. \<open>compareData\<close> raises exactly when the current value has no
  truthy \<^verbatim>\<open>date\<close> (the field is missing or empty, or the value itself is falsy), or the
  previous value is not \<^verbatim>\<open>null\<close> and has no truthy \<^verbatim>\<open>date\<close>. The error it raises for
  a current value names the current side, the one for a previous value other than
  \<^verbatim>\<open>undefined\<close> names the previous side, and whenever it raises, a side fails
  \<open>isValidInvitationData\<close>. It does not look at anything else of an entry.
\<close>

theorem compareData_raises_iff_missing_date:
  "(isl (compareData prev cur) \<longleftrightarrow>
      \<not> truthy (field cur ''date'') \<or> (prev \<noteq> Null \<and> \<not> truthy (field prev ''date'')))
   \<and> (\<not> truthy (field cur ''date'') \<longrightarrow>
        compareData prev cur =
          Inl (Error ''Comparison failed: Invalid current data: missing date field''))
   \<and> (truthy (field cur ''date'') \<and> prev \<noteq> Null \<and> prev \<noteq> Undefined \<and> \<not> truthy (field prev ''date'') \<longrightarrow>
        compareData prev cur =
          Inl (Error ''Comparison failed: Invalid previous data: missing date field''))
   \<and> (isl (compareData prev cur) \<longrightarrow>
        \<not> isValidInvitationData P cur \<or> (prev \<noteq> Null \<and> \<not> isValidInvitationData P prev))"
proof -
  have u: "\<not> truthy (field Undefined ''date'')" by simp
  have 1: "isl (compareData prev cur) \<longleftrightarrow>
      \<not> truthy (field cur ''date'') \<or> (prev \<noteq> Null \<and> \<not> truthy (field prev ''date''))"
    using u by (auto simp: compareData_cases)
  have 4: "\<not> isValidInvitationData P cur \<or> (prev \<noteq> Null \<and> \<not> isValidInvitationData P prev)"
    if "isl (compareData prev cur)"
    using that valid_truthy_date [of P cur] valid_truthy_date [of P prev] unfolding 1 by blast
  have 2: "\<not> truthy (field cur ''date'') \<longrightarrow>
        compareData prev cur =
          Inl (Error ''Comparison failed: Invalid current data: missing date field'')"
    by (simp add: compareData_cases)
  have 3: "truthy (field cur ''date'') \<and> prev \<noteq> Null \<and> prev \<noteq> Undefined \<and> \<not> truthy (field prev ''date'') \<longrightarrow>
        compareData prev cur =
          Inl (Error ''Comparison failed: Invalid previous data: missing date field'')"
    by (simp add: compareData_cases)
  show ?thesis using 1 2 3 4 by blast
qed

theorem compareData_raises_iff_missing_date_witness:
  "\<not> truthy (field entry_empty_date ''date'')
   \<and> compareData Null entry_empty_date =
       Inl (Error ''Comparison failed: Invalid current data: missing date field'')
   \<and> compareData entry_empty_date entry_jan15 =
       Inl (Error ''Comparison failed: Invalid previous data: missing date field'')
   \<and> \<not> isValidInvitationData strict_engine entry_empty_date"
proof -
  have e: "\<not> truthy (field entry_empty_date ''date'')" by (simp add: entry_eval)
  have t: "truthy (field entry_jan15 ''date'')" by (simp add: entry_eval)
  have n: "entry_empty_date \<noteq> Null" "entry_empty_date \<noteq> Undefined" by (simp_all add: entry_eval)
  have i: "isl (compareData Null entry_empty_date)"
    using compareData_raises_iff_missing_date [of Null entry_empty_date strict_engine] e by simp
  show ?thesis
    using e t n i compareData_raises_iff_missing_date [of Null entry_empty_date strict_engine]
      compareData_raises_iff_missing_date [of entry_empty_date entry_jan15 strict_engine]
    by simp
qed

text \<open>
  The specification has \<open>compareData\<close> raise for every input that fails
  \<open>isValidInvitationData\<close>. The code does not: the entry with a count of zero is compared
  like any other, as the current entry and as the previous one.
\<close>

theorem compareData_accepts_invalid_entry:
  "\<not> isValidInvitationData strict_engine entry_no_invitations
   \<and> compareData Null entry_no_invitations =
       Inr \<lparr>hasChanged = True, previous = Null, current = entry_no_invitations\<rparr>
   \<and> compareData entry_no_invitations entry_jan14 =
       Inr \<lparr>hasChanged = True, previous = entry_no_invitations, current = entry_jan14\<rparr>
   \<and> isValidInvitationData strict_engine entry_jan14"
  by (simp add: compareData_cases entry_eval validity_eval)




section \<open>Storage\<close>

lemma temp_path_distinct: "p @ ''.tmp'' \<noteq> p"
  by simp

lemma fs_mkdir_files: "files (snd (fs_mkdir E dir w)) = files w"
  by (simp add: fs_mkdir_def)

lemma fs_readFile_files: "files (snd (fs_readFile E path w)) = files w"
  by (simp add: fs_readFile_def Let_def split: option.splits)

lemma fs_unlink_other: "q \<noteq> path \<Longrightarrow> files (snd (fs_unlink E path w)) q = files w q"
  by (simp add: fs_unlink_def Let_def split: option.splits)

lemma fs_writeFile_other: "q \<noteq> path \<Longrightarrow> files (snd (fs_writeFile E path c w)) q = files w q"
  by (simp add: fs_writeFile_def split: option.splits prod.splits)

lemma fs_rename_failed:
  "fst (fs_rename E src dst w) \<noteq> None \<Longrightarrow> files (snd (fs_rename E src dst w)) = files w"
  by (simp add: fs_rename_def Let_def split: option.splits if_splits)

lemma cleanup_temp_other: "q \<noteq> tempPath \<Longrightarrow> files (cleanup_temp E tempPath w) q = files w q"
proof -
  assume q: "q \<noteq> tempPath"
  obtain r w1 where r: "fs_readFile E tempPath w = (r, w1)" by (cases "fs_readFile E tempPath w")
  then have f: "files w1 = files w" using fs_readFile_files [of E tempPath w] by simp
  show ?thesis
  proof (cases r)
    case (Inl e)
    then show ?thesis using r f by (simp add: cleanup_temp_def)
  next
    case (Inr c)
    then show ?thesis using r f fs_unlink_other [OF q, of E w1] by (simp add: cleanup_temp_def)
  qed
qed

lemma logError_files: "files (logError e c w) = files w"
  by (simp add: logError_def)

lemma writeStoredData_try_frame:
  assumes "fst (writeStoredData_try P E config data w) \<noteq> None"
  shows "files (snd (writeStoredData_try P E config data w)) (dataFilePath config)
           = files w (dataFilePath config)"
proof -
  let ?p = "dataFilePath config" and ?t = "dataFilePath config @ ''.tmp''"
  have ne: "?p \<noteq> ?t" by simp
  obtain m w1 where m: "fs_mkdir E (dirname P ?p) w = (m, w1)" by (cases "fs_mkdir E (dirname P ?p) w")
  then have f1: "files w1 = files w" using fs_mkdir_files [of E "dirname P ?p" w] by simp
  show ?thesis
  proof (cases m)
    case (Some e)
    then show ?thesis using m f1 by (simp add: writeStoredData_try_def)
  next
    case None
    obtain x w2 where x: "fs_writeFile E ?t (JSON_stringify P data 2) w1 = (x, w2)"
      by (cases "fs_writeFile E ?t (JSON_stringify P data 2) w1")
    then have f2: "files w2 ?p = files w ?p"
      using fs_writeFile_other [OF ne, of E "JSON_stringify P data 2" w1] f1 by simp
    show ?thesis
    proof (cases x)
      case (Some e)
      then show ?thesis using m None x f2 by (simp add: writeStoredData_try_def)
    next
      case n2: None
      obtain y w3 where y: "fs_rename E ?t ?p w2 = (y, w3)" by (cases "fs_rename E ?t ?p w2")
      show ?thesis
      proof (cases y)
        case (Some e)
        then have "files w3 = files w2" using fs_rename_failed [of E ?t ?p w2] y by simp
        then have "files (cleanup_temp E ?t w3) ?p = files w ?p"
          using cleanup_temp_other [OF ne, of E w3] f2 by simp
        then show ?thesis using m None x n2 y Some by (simp add: writeStoredData_try_def)
      next
        case n3: None
        then show ?thesis using assms m None x n2 y by (simp add: writeStoredData_try_def)
      qed
    qed
  qed
qed

lemma writeStoredData_fst: "fst (writeStoredData P E config data w) = fst (writeStoredData_try P E config data w)"
  by (simp add: writeStoredData_def split: prod.splits option.splits)

lemma writeStoredData_files:
  "files (snd (writeStoredData P E config data w)) = files (snd (writeStoredData_try P E config data w))"
  by (simp add: writeStoredData_def logError_files split: prod.splits option.splits)

lemma writeStoredData_try_success:
  assumes "fst (writeStoredData_try P E config data w) = None"
  shows "mkdir_fails E (dirname P (dataFilePath config)) = None
         \<and> writeFile_fails E (dataFilePath config @ ''.tmp'') = None
         \<and> rename_fails E (dataFilePath config @ ''.tmp'') (dataFilePath config) = None
         \<and> snd (writeStoredData_try P E config data w) =
             w\<lparr>files := (files w)(dataFilePath config \<mapsto> JSON_stringify P data 2,
                                  dataFilePath config @ ''.tmp'' := None),
               fs_ops := fs_ops w @ [Mkdir (dirname P (dataFilePath config)),
                                     WriteFile (dataFilePath config @ ''.tmp'') (JSON_stringify P data 2),
                                     Rename (dataFilePath config @ ''.tmp'') (dataFilePath config)]\<rparr>"
  using assms
  by (auto simp: writeStoredData_try_def fs_mkdir_def fs_writeFile_def fs_rename_def Let_def
      split: option.splits prod.splits if_splits)



text \<open>
  C7. \<open>writeStoredData\<close> writes to a temporary path, distinct from the final one. When it
  completes, the calls it made are one \<^verbatim>\<open>mkdir\<close>, one \<^verbatim>\<open>writeFile\<close> of the whole
  serialized entry to the temporary path and one \<^verbatim>\<open>rename\<close> onto the final path, which
  then holds that text. A failing temporary write makes it raise at once; a failing rename
  makes it raise once it has read the temporary file and, if that read succeeded, asked
  for its deletion. Whenever it raises, the content at the final path is what it was
  before the call.
\<close>

theorem writeStoredData_atomic:
  fixes P E config data w
  defines "final \<equiv> dataFilePath config"
    and "temp \<equiv> dataFilePath config @ ''.tmp''"
    and "content \<equiv> JSON_stringify P data 2"
    and "r \<equiv> writeStoredData P E config data w"
  shows "temp \<noteq> final
    \<and> (fst r = None \<longrightarrow>
          fs_ops (snd r) = fs_ops w @ [Mkdir (dirname P final), WriteFile temp content, Rename temp final]
          \<and> files (snd r) final = Some content)
    \<and> (mkdir_fails E (dirname P final) = None \<and> writeFile_fails E temp \<noteq> None \<longrightarrow>
          (\<exists>err. fst r = Some (Error (''Failed to write to temporary file '' @ temp @ '': '' @ message err)))
          \<and> fs_ops (snd r) = fs_ops w @ [Mkdir (dirname P final), WriteFile temp content])
    \<and> (mkdir_fails E (dirname P final) = None \<and> writeFile_fails E temp = None
         \<and> rename_fails E temp final \<noteq> None \<longrightarrow>
          (\<exists>err. fst r = Some (Error (''Failed to rename temporary file to '' @ final @ '': '' @ message err)))
          \<and> fs_ops (snd r) =
               fs_ops w @ [Mkdir (dirname P final), WriteFile temp content, Rename temp final, ReadFile temp]
                 @ (if readFile_fails E temp = None then [Unlink temp] else []))
    \<and> (fst r \<noteq> None \<longrightarrow> files (snd r) final = files w final)"
proof -
  have 1: "temp \<noteq> final" by (simp add: temp_def final_def)
  have 2: "fs_ops (snd r) = fs_ops w @ [Mkdir (dirname P final), WriteFile temp content, Rename temp final]
          \<and> files (snd r) final = Some content" if "fst r = None"
  proof -
    from that have t: "fst (writeStoredData_try P E config data w) = None"
      by (simp add: r_def writeStoredData_fst)
    then have "r = writeStoredData_try P E config data w"
      by (cases "writeStoredData_try P E config data w") (simp add: r_def writeStoredData_def)
    then show ?thesis
      using writeStoredData_try_success [OF t] by (simp add: final_def temp_def content_def)
  qed
  have 3: "(\<exists>err. fst r = Some (Error (''Failed to write to temporary file '' @ temp @ '': '' @ message err)))
          \<and> fs_ops (snd r) = fs_ops w @ [Mkdir (dirname P final), WriteFile temp content]"
    if "mkdir_fails E (dirname P final) = None \<and> writeFile_fails E temp \<noteq> None"
    using that
    by (auto simp: r_def final_def temp_def content_def writeStoredData_def writeStoredData_try_def
        fs_mkdir_def fs_writeFile_def logError_def Let_def)
  have 4: "(\<exists>err. fst r = Some (Error (''Failed to rename temporary file to '' @ final @ '': '' @ message err)))
          \<and> fs_ops (snd r) =
               fs_ops w @ [Mkdir (dirname P final), WriteFile temp content, Rename temp final, ReadFile temp]
                 @ (if readFile_fails E temp = None then [Unlink temp] else [])"
    if "mkdir_fails E (dirname P final) = None \<and> writeFile_fails E temp = None
         \<and> rename_fails E temp final \<noteq> None"
    using that
    by (auto simp: r_def final_def temp_def content_def writeStoredData_def writeStoredData_try_def
        fs_mkdir_def fs_writeFile_def fs_rename_def cleanup_temp_def fs_readFile_def fs_unlink_def
        logError_def Let_def split: option.splits)
  have 5: "files (snd r) final = files w final" if "fst r \<noteq> None"
    using that writeStoredData_try_frame [of P E config data w]
    by (simp add: r_def final_def writeStoredData_fst writeStoredData_files)
  show ?thesis using 1 2 3 4 5 by blast
qed

lemmas world_eval =
  empty_world_def world_with_file_def world_with_jan14_def world_with_unchecked_def quiet_env_def
  rename_denied_env_def disk_full_env_def default_config_def

lemmas fs_eval =
  fs_mkdir_def fs_writeFile_def fs_rename_def fs_readFile_def fs_unlink_def cleanup_temp_def
  logError_def ENOENT_def Let_def

lemmas text_eval =
  jan14_text_def jan15_text_def unchecked_text_def invalid_json_text_def date_only_text_def
  entry_text_def entry_text_compact_def quoted_def

lemmas engine_eval =
  strict_engine_def example_JSON_parse_def example_JSON_stringify_def example_dirname_def
  deep_equal_def

theorem writeStoredData_atomic_witness:
  "fst (writeStoredData strict_engine rename_denied_env (storage default_config) entry_jan15 world_with_jan14)
     = Some (Error ''Failed to rename temporary file to ./last-draw-data.json: EACCES: permission denied, rename'')
   \<and> files (snd (writeStoredData strict_engine rename_denied_env (storage default_config) entry_jan15
                    world_with_jan14)) ''./last-draw-data.json'' = Some jan14_text
   \<and> fs_ops (snd (writeStoredData strict_engine rename_denied_env (storage default_config) entry_jan15
                    world_with_jan14))
       = [Mkdir ''.'', WriteFile ''./last-draw-data.json.tmp'' jan15_text,
          Rename ''./last-draw-data.json.tmp'' ''./last-draw-data.json'',
          ReadFile ''./last-draw-data.json.tmp'', Unlink ''./last-draw-data.json.tmp'']
   \<and> fst (writeStoredData strict_engine disk_full_env (storage default_config) entry_jan15 world_with_jan14)
     = Some (Error ''Failed to write to temporary file ./last-draw-data.json.tmp: ENOSPC: no space left on device, write'')
   \<and> files (snd (writeStoredData strict_engine disk_full_env (storage default_config) entry_jan15
                    world_with_jan14)) ''./last-draw-data.json'' = Some jan14_text
   \<and> files (snd (writeStoredData strict_engine disk_full_env (storage default_config) entry_jan15
                    world_with_jan14)) ''./last-draw-data.json.tmp'' = Some ''{''
   \<and> fst (writeStoredData strict_engine (quiet_env failing_source) (storage default_config) entry_jan15
              world_with_jan14) = None
   \<and> files (snd (writeStoredData strict_engine (quiet_env failing_source) (storage default_config)
                    entry_jan15 world_with_jan14)) ''./last-draw-data.json'' = Some jan15_text
   \<and> fs_ops (snd (writeStoredData strict_engine (quiet_env failing_source) (storage default_config)
                    entry_jan15 world_with_jan14))
       = [Mkdir ''.'', WriteFile ''./last-draw-data.json.tmp'' jan15_text,
          Rename ''./last-draw-data.json.tmp'' ''./last-draw-data.json'']"
proof -
  have a: "fst (writeStoredData strict_engine rename_denied_env (storage default_config) entry_jan15 world_with_jan14)
     = Some (Error ''Failed to rename temporary file to ./last-draw-data.json: EACCES: permission denied, rename'')"
    by (simp add: writeStoredData_def writeStoredData_try_def world_eval fs_eval engine_eval)
  have b: "fst (writeStoredData strict_engine disk_full_env (storage default_config) entry_jan15 world_with_jan14)
     = Some (Error ''Failed to write to temporary file ./last-draw-data.json.tmp: ENOSPC: no space left on device, write'')"
    by (simp add: writeStoredData_def writeStoredData_try_def world_eval fs_eval engine_eval)
  have c: "fst (writeStoredData strict_engine (quiet_env failing_source) (storage default_config) entry_jan15
              world_with_jan14) = None"
    by (simp add: writeStoredData_def writeStoredData_try_def world_eval fs_eval engine_eval)
  have s: "JSON_stringify strict_engine entry_jan15 2 = jan15_text"
    by (simp add: engine_eval entry_eval)
  have d: "dirname strict_engine ''./last-draw-data.json'' = ''.''"
    by (simp add: engine_eval)
  have w: "files world_with_jan14 ''./last-draw-data.json'' = Some jan14_text" "fs_ops world_with_jan14 = []"
    by (simp_all add: world_eval)
  have p: "dataFilePath (storage default_config) = ''./last-draw-data.json''"
    by (simp add: world_eval)
  have e: "files (snd (writeStoredData strict_engine disk_full_env (storage default_config) entry_jan15
                    world_with_jan14)) ''./last-draw-data.json.tmp'' = Some ''{''"
    by (simp add: writeStoredData_def writeStoredData_try_def world_eval fs_eval engine_eval)
  have m: "mkdir_fails rename_denied_env ''.'' = None"
    "writeFile_fails rename_denied_env ''./last-draw-data.json.tmp'' = None"
    "rename_fails rename_denied_env ''./last-draw-data.json.tmp'' ''./last-draw-data.json'' \<noteq> None"
    "readFile_fails rename_denied_env ''./last-draw-data.json.tmp'' = None"
    by (simp_all add: world_eval)
  show ?thesis
    using a b c e m
      writeStoredData_atomic [of "storage default_config" strict_engine rename_denied_env entry_jan15 world_with_jan14]
      writeStoredData_atomic [of "storage default_config" strict_engine disk_full_env entry_jan15 world_with_jan14]
      writeStoredData_atomic [of "storage default_config" strict_engine "quiet_env failing_source" entry_jan15 world_with_jan14]
    by (simp add: s d w p)
qed



text \<open>What \<open>readStoredData\<close> does, by the state of the file.\<close>

lemma readStoredData_absent:
  assumes "readFile_fails E (dataFilePath config) = None" "files w (dataFilePath config) = None"
  shows "readStoredData P E config w = (Null, w\<lparr>fs_ops := fs_ops w @ [ReadFile (dataFilePath config)]\<rparr>)"
  using assms
  by (simp add: readStoredData_def readStoredData_try_def readStoredData_catch_def fs_readFile_def
      ENOENT_def Let_def)

lemma readStoredData_malformed:
  assumes "readFile_fails E (dataFilePath config) = None" "files w (dataFilePath config) = Some content"
    "JSON_parse P content = Inl msg"
  shows "readStoredData P E config w =
           (Null, w\<lparr>fs_ops := fs_ops w @ [ReadFile (dataFilePath config)],
                     console := console w @ [LogError (SyntaxError msg)
                        (''Failed to parse JSON from storage file '' @ dataFilePath config)]\<rparr>)"
  using assms
  by (simp add: readStoredData_def readStoredData_try_def readStoredData_catch_def fs_readFile_def
      logError_def Let_def)

lemma readStoredData_parsed:
  assumes "readFile_fails E (dataFilePath config) = None" "files w (dataFilePath config) = Some content"
    "JSON_parse P content = Inr data"
  shows "fst (readStoredData P E config w) = (if basic_structure data then data else Null)"
    and "\<not> basic_structure data \<Longrightarrow>
           \<exists>e c. console (snd (readStoredData P E config w)) = console w @ [LogError e c]"
    and "basic_structure data \<Longrightarrow> console (snd (readStoredData P E config w)) = console w"
proof -
  have g: "get_prop data ''date'' = Inr (field data ''date'')" if "basic_structure data"
    using that by (simp add: basic_structure_def truthy_field_get_prop)
  show "fst (readStoredData P E config w) = (if basic_structure data then data else Null)"
    using assms g
    by (cases data)
      (auto simp: readStoredData_def readStoredData_try_def readStoredData_catch_def fs_readFile_def
        logError_def Let_def basic_structure_def)
  show "\<exists>e c. console (snd (readStoredData P E config w)) = console w @ [LogError e c]"
    if "\<not> basic_structure data"
    using assms that
    by (cases data)
      (auto simp: readStoredData_def readStoredData_try_def readStoredData_catch_def fs_readFile_def
        logError_def Let_def basic_structure_def)
  show "console (snd (readStoredData P E config w)) = console w" if "basic_structure data"
    using assms that g
    by (cases data)
      (auto simp: readStoredData_def readStoredData_try_def readStoredData_catch_def fs_readFile_def
        logError_def Let_def basic_structure_def)
qed

lemma readStoredData_faulted:
  assumes "readFile_fails E (dataFilePath config) = Some err"
  shows "fst (readStoredData P E config w) = Null"
  using assms
  by (simp add: readStoredData_def readStoredData_try_def readStoredData_catch_def fs_readFile_def
      Let_def)

lemma readStoredData_nonnull:
  assumes "fst (readStoredData P E config w) \<noteq> Null"
  shows "\<exists>content. readFile_fails E (dataFilePath config) = None
            \<and> files w (dataFilePath config) = Some content
            \<and> JSON_parse P content = Inr (fst (readStoredData P E config w))
            \<and> basic_structure (fst (readStoredData P E config w))"
proof (cases "readFile_fails E (dataFilePath config)")
  case (Some err)
  then show ?thesis using assms readStoredData_faulted by blast
next
  case None
  show ?thesis
  proof (cases "files w (dataFilePath config)")
    case n: None
    then show ?thesis using assms readStoredData_absent [OF None n, of P] by simp
  next
    case (Some content)
    show ?thesis
    proof (cases "JSON_parse P content")
      case (Inl msg)
      then show ?thesis using assms readStoredData_malformed [OF None Some Inl] by simp
    next
      case (Inr data)
      then show ?thesis using assms readStoredData_parsed(1) [OF None Some Inr] None Some
        by (auto split: if_splits)
    qed
  qed
qed



lemma readStoredData_files: "files (snd (readStoredData P E config w)) = files w"
  by (auto simp: readStoredData_def readStoredData_try_def readStoredData_catch_def fs_readFile_def
      logError_def Let_def split: option.splits sum.splits)

text \<open>
  C4, as the code has it. \<open>readStoredData\<close> has no path on which it throws. It returns
  \<^verbatim>\<open>null\<close> without a diagnostic when there is no file, \<^verbatim>\<open>null\<close> with a diagnostic when
  the text is not JSON or when the decoded value fails the basic check (a truthy
  \<^verbatim>\<open>date\<close>, \<^verbatim>\<open>invitations\<close> and \<^verbatim>\<open>crsScore\<close> of type number); a value it returns
  other than \<^verbatim>\<open>null\<close> is the decoded value and passes that check. It leaves the files
  as they are.
\<close>

theorem readStoredData_basic_structure:
  fixes P E config w
  defines "path \<equiv> dataFilePath config"
    and "r \<equiv> readStoredData P E config w"
  shows "(readFile_fails E path = None \<and> files w path = None \<longrightarrow>
            fst r = Null \<and> console (snd r) = console w)
    \<and> (\<forall>content msg. readFile_fails E path = None \<and> files w path = Some content
            \<and> JSON_parse P content = Inl msg \<longrightarrow>
            fst r = Null
            \<and> console (snd r) = console w @
                 [LogError (SyntaxError msg) (''Failed to parse JSON from storage file '' @ path)])
    \<and> (\<forall>content data. readFile_fails E path = None \<and> files w path = Some content
            \<and> JSON_parse P content = Inr data \<and> \<not> basic_structure data \<longrightarrow>
            fst r = Null \<and> (\<exists>e c. console (snd r) = console w @ [LogError e c]))
    \<and> (fst r \<noteq> Null \<longrightarrow>
            basic_structure (fst r)
            \<and> (\<exists>content. files w path = Some content \<and> JSON_parse P content = Inr (fst r)))
    \<and> files (snd r) = files w"
proof -
  have 1: "fst r = Null \<and> console (snd r) = console w"
    if "readFile_fails E path = None \<and> files w path = None"
    using that readStoredData_absent [of E config w P] by (simp add: r_def path_def)
  have 2: "fst r = Null
            \<and> console (snd r) = console w @
                 [LogError (SyntaxError msg) (''Failed to parse JSON from storage file '' @ path)]"
    if "readFile_fails E path = None \<and> files w path = Some content \<and> JSON_parse P content = Inl msg"
    for content msg
    using that readStoredData_malformed [of E config w content P msg] by (simp add: r_def path_def)
  have 3: "fst r = Null \<and> (\<exists>e c. console (snd r) = console w @ [LogError e c])"
    if "readFile_fails E path = None \<and> files w path = Some content
            \<and> JSON_parse P content = Inr data \<and> \<not> basic_structure data"
    for content data
    using that readStoredData_parsed(1,2) [of E config w content P data] by (simp add: r_def path_def)
  have 4: "basic_structure (fst r)
            \<and> (\<exists>content. files w path = Some content \<and> JSON_parse P content = Inr (fst r))"
    if "fst r \<noteq> Null"
    using that readStoredData_nonnull [of P E config w] unfolding r_def path_def by blast
  have 5: "files (snd r) = files w" by (simp add: r_def readStoredData_files)
  show ?thesis using 1 2 3 4 5 by blast
qed

theorem readStoredData_basic_structure_witness:
  "fst (readStoredData strict_engine (quiet_env failing_source) (storage default_config) empty_world) = Null
   \<and> console (snd (readStoredData strict_engine (quiet_env failing_source) (storage default_config)
                     empty_world)) = []
   \<and> fst (readStoredData strict_engine (quiet_env failing_source) (storage default_config)
            world_with_jan14) = make_entry 11 ''2024-01-14'' 100 400
   \<and> basic_structure (make_entry 11 ''2024-01-14'' 100 400)
   \<and> readStoredData strict_engine (quiet_env failing_source) (storage default_config)
         (world_with_file invalid_json_text)
       = (Null, (world_with_file invalid_json_text)
                  \<lparr>fs_ops := [ReadFile ''./last-draw-data.json''],
                    console := [LogError (SyntaxError ''JSON Parse error: Unexpected identifier'')
                                  ''Failed to parse JSON from storage file ./last-draw-data.json'']\<rparr>)
   \<and> readStoredData strict_engine (quiet_env failing_source) (storage default_config)
         (world_with_file date_only_text)
       = (Null, (world_with_file date_only_text)
                  \<lparr>fs_ops := [ReadFile ''./last-draw-data.json''],
                    console := [LogError (Error ''Invalid data structure in storage file'')
                                  ''Storage file ./last-draw-data.json contains invalid data structure'']\<rparr>)"
proof -
  have a: "readFile_fails (quiet_env failing_source) (dataFilePath (storage default_config)) = None"
    by (simp add: world_eval)
  have b: "files empty_world (dataFilePath (storage default_config)) = None" "console empty_world = []"
    by (simp_all add: world_eval)
  have c: "fst (readStoredData strict_engine (quiet_env failing_source) (storage default_config)
            world_with_jan14) = make_entry 11 ''2024-01-14'' 100 400"
    by (simp add: readStoredData_def readStoredData_try_def world_eval fs_eval engine_eval text_eval
        entry_eval)
  have d: "make_entry 11 ''2024-01-14'' 100 400 \<noteq> Null" by (simp add: entry_eval)
  have e: "readStoredData strict_engine (quiet_env failing_source) (storage default_config)
         (world_with_file invalid_json_text)
       = (Null, (world_with_file invalid_json_text)
                  \<lparr>fs_ops := [ReadFile ''./last-draw-data.json''],
                    console := [LogError (SyntaxError ''JSON Parse error: Unexpected identifier'')
                                  ''Failed to parse JSON from storage file ./last-draw-data.json'']\<rparr>)"
    by (simp add: readStoredData_def readStoredData_try_def readStoredData_catch_def world_eval fs_eval engine_eval text_eval entry_eval)
  have f: "readStoredData strict_engine (quiet_env failing_source) (storage default_config)
         (world_with_file date_only_text)
       = (Null, (world_with_file date_only_text)
                  \<lparr>fs_ops := [ReadFile ''./last-draw-data.json''],
                    console := [LogError (Error ''Invalid data structure in storage file'')
                                  ''Storage file ./last-draw-data.json contains invalid data structure'']\<rparr>)"
    by (simp add: readStoredData_def readStoredData_try_def readStoredData_catch_def world_eval fs_eval engine_eval text_eval entry_eval)
  show ?thesis
    using a b c d e f
      readStoredData_basic_structure [of "quiet_env failing_source" "storage default_config" empty_world strict_engine]
      readStoredData_basic_structure [of "quiet_env failing_source" "storage default_config" world_with_jan14 strict_engine]
    by simp
qed

text \<open>
  The specification has every value other than \<^verbatim>\<open>null\<close> that \<open>readStoredData\<close> returns
  satisfy \<open>isValidInvitationData\<close>. The code does not: a stored file whose date is no date
  and whose counts are negative and fractional passes the basic check and is returned.
\<close>

theorem readStoredData_returns_invalid_entry:
  "fst (readStoredData strict_engine (quiet_env failing_source) (storage default_config)
         world_with_unchecked) = unchecked_entry
   \<and> unchecked_entry \<noteq> Null
   \<and> \<not> isValidInvitationData strict_engine unchecked_entry"
  by (simp add: readStoredData_def readStoredData_try_def world_eval fs_eval engine_eval text_eval
      entry_eval validity_eval)



lemma map_of_strip:
  "map_of (map (\<lambda>kv. (fst kv, strip_addr (snd kv))) fs) k = map_option strip_addr (map_of fs k)"
  by (induction fs) auto

lemma field_strip_addr: "field (strip_addr v) k = strip_addr (field v k)"
  by (cases v) (simp_all add: map_of_strip split: option.splits)

lemma truthy_strip_addr: "truthy (strip_addr v) = truthy v"
  by (cases v) simp_all

lemma typeof_strip_addr: "typeof (strip_addr v) = typeof v"
  by (cases v) simp_all

lemma deep_equal_truthy_field:
  assumes "deep_equal a b"
  shows "truthy (field a k) = truthy (field b k)"
proof -
  have "strip_addr (field a k) = strip_addr (field b k)"
    using assms by (simp add: deep_equal_def field_strip_addr [symmetric])
  then show ?thesis using truthy_strip_addr by metis
qed

lemma deep_equal_typeof_field:
  assumes "deep_equal a b"
  shows "typeof (field a k) = typeof (field b k)"
proof -
  have "strip_addr (field a k) = strip_addr (field b k)"
    using assms by (simp add: deep_equal_def field_strip_addr [symmetric])
  then show ?thesis using typeof_strip_addr by metis
qed

lemma valid_basic_structure:
  assumes "isValidInvitationData P v"
  shows "basic_structure v"
proof -
  have "typeof (field v ''invitations'') = ''number''" "typeof (field v ''crsScore'') = ''number''"
    using assms by (auto simp: isValidInvitationData_def split: if_splits jsval.splits)
  then show ?thesis using valid_truthy_date [OF assms] by (simp add: basic_structure_def)
qed

lemma writeStoredData_success_file:
  assumes "fst (writeStoredData P E config data w) = None"
  shows "files (snd (writeStoredData P E config data w)) (dataFilePath config)
           = Some (JSON_stringify P data 2)"
proof -
  have t: "fst (writeStoredData_try P E config data w) = None"
    using assms by (simp add: writeStoredData_fst)
  show ?thesis
    using writeStoredData_try_success [OF t] by (simp add: writeStoredData_files)
qed

text \<open>
  C8. For an entry that satisfies \<open>isValidInvitationData\<close> and that the engine's JSON
  functions carry through a round trip, \<open>readStoredData\<close> after a \<open>writeStoredData\<close> that
  completed, on the same location and with the file readable, returns a value deep-equal
  to the entry.
\<close>

theorem write_then_read_round_trip:
  assumes "isValidInvitationData P e"
    and "json_round_trips P e"
    and "fst (writeStoredData P E config e w) = None"
    and "readFile_fails E (dataFilePath config) = None"
  shows "deep_equal (fst (readStoredData P E config (snd (writeStoredData P E config e w)))) e"
proof -
  let ?w1 = "snd (writeStoredData P E config e w)"
  have "files ?w1 (dataFilePath config) = Some (JSON_stringify P e 2)"
    using assms(3) by (rule writeStoredData_success_file)
  moreover obtain e' where p: "JSON_parse P (JSON_stringify P e 2) = Inr e'" and d: "deep_equal e' e"
    using assms(2) by (auto simp: json_round_trips_def split: sum.splits)
  moreover have "basic_structure e'"
    using valid_basic_structure [OF assms(1)] deep_equal_truthy_field [OF d] deep_equal_typeof_field [OF d]
    by (simp add: basic_structure_def)
  ultimately have "fst (readStoredData P E config ?w1) = e'"
    using readStoredData_parsed(1) [OF assms(4), of ?w1 "JSON_stringify P e 2" P e'] by simp
  then show ?thesis using d by simp
qed

theorem write_then_read_round_trip_witness:
  "isValidInvitationData strict_engine entry_jan15
   \<and> json_round_trips strict_engine entry_jan15
   \<and> fst (writeStoredData strict_engine (quiet_env failing_source) (storage default_config) entry_jan15
            world_with_jan14) = None
   \<and> deep_equal
        (fst (readStoredData strict_engine (quiet_env failing_source) (storage default_config)
               (snd (writeStoredData strict_engine (quiet_env failing_source) (storage default_config)
                       entry_jan15 world_with_jan14))))
        entry_jan15
   \<and> fst (readStoredData strict_engine (quiet_env failing_source) (storage default_config)
               (snd (writeStoredData strict_engine (quiet_env failing_source) (storage default_config)
                       entry_jan15 world_with_jan14)))
       = make_entry 12 ''2024-01-15'' 150 410"
proof -
  have a: "isValidInvitationData strict_engine entry_jan15"
    by (simp add: entry_eval validity_eval)
  have b: "json_round_trips strict_engine entry_jan15"
    by (simp add: json_round_trips_def engine_eval entry_eval text_eval)
  have c: "fst (writeStoredData strict_engine (quiet_env failing_source) (storage default_config) entry_jan15
            world_with_jan14) = None"
    by (simp add: writeStoredData_def writeStoredData_try_def world_eval fs_eval engine_eval)
  have d: "readFile_fails (quiet_env failing_source) (dataFilePath (storage default_config)) = None"
    by (simp add: world_eval)
  have e: "fst (readStoredData strict_engine (quiet_env failing_source) (storage default_config)
               (snd (writeStoredData strict_engine (quiet_env failing_source) (storage default_config)
                       entry_jan15 world_with_jan14)))
       = make_entry 12 ''2024-01-15'' 150 410"
    by (simp add: readStoredData_def readStoredData_try_def writeStoredData_def writeStoredData_try_def
        world_eval fs_eval engine_eval text_eval entry_eval)
  show ?thesis
    using a b c e write_then_read_round_trip [OF a b c d] by simp
qed

section \<open>Acquisition\<close>

lemma after_failures_none: "b < a \<Longrightarrow> after_failures E config a b w = w"
  by (simp add: after_failures_def)

lemma after_failures_step:
  assumes "a \<le> b" "b \<le> retries config"
  shows "after_failures E config (a + 1) b
           ((if a < retries config then sleep (backoff config a) else id)
              (logError (cause E config a) (attempt_context config a)
                 (w\<lparr>scrapes := scrapes w @ [a]\<rparr>)))
         = after_failures E config a b w"
proof (cases "a < retries config")
  case True
  then have "[a..min b (retries config - 1)] = a # [a + 1..min b (retries config - 1)]"
    using assms by (simp add: upto_rec1)
  moreover have "[a..b] = a # [a + 1..b]" using assms by (simp add: upto_rec1)
  ultimately show ?thesis using True
    by (simp add: after_failures_def sleep_def logError_def)
next
  case False
  then have ab: "a = b" "b = retries config" using assms by simp_all
  then show ?thesis
    by (simp add: after_failures_def sleep_def logError_def)
qed

lemma scrape_loop_failures:
  assumes "\<forall>i. a \<le> i \<and> i \<le> b \<longrightarrow> isl (attemptScrape E config i)"
    and "b \<le> retries config"
  shows "scrape_loop E config a lastError w =
           scrape_loop E config (max a (b + 1)) (if a \<le> b then Some (cause E config b) else lastError)
             (after_failures E config a b w)"
  using assms
proof (induction "nat (b + 1 - a)" arbitrary: a lastError w)
  case 0
  then have "b < a" by simp
  moreover from this have "max a (b + 1) = a" by simp
  ultimately show ?case by (simp add: after_failures_none)
next
  case (Suc n)
  then have ab: "a \<le> b" by simp
  then obtain err where e: "attemptScrape E config a = Inl err"
    using Suc.prems(1) by (cases "attemptScrape E config a") auto
  then have c: "cause E config a = err" by (simp add: cause_def)
  let ?w = "(if a < retries config then sleep (backoff config a) else id)
              (logError (cause E config a) (attempt_context config a)
                 (w\<lparr>scrapes := scrapes w @ [a]\<rparr>))"
  have "scrape_loop E config a lastError w = scrape_loop E config (a + 1) (Some err) ?w"
    using ab Suc.prems(2) e c
    by (subst scrape_loop.simps) (simp add: attempt_context_def backoff_def)
  also have "\<dots> = scrape_loop E config (max (a + 1) (b + 1))
                     (if a + 1 \<le> b then Some (cause E config b) else Some err)
                     (after_failures E config (a + 1) b ?w)"
  proof (rule Suc.hyps(1))
    show "n = nat (b + 1 - (a + 1))" using Suc.hyps(2) by simp
    show "\<forall>i. a + 1 \<le> i \<and> i \<le> b \<longrightarrow> isl (attemptScrape E config i)"
      using Suc.prems(1) by simp
    show "b \<le> retries config" by (rule Suc.prems(2))
  qed
  also have "after_failures E config (a + 1) b ?w = after_failures E config a b w"
    using ab Suc.prems(2) by (rule after_failures_step)
  also have "max (a + 1) (b + 1) = max a (b + 1)" using ab by simp
  also have "(if a + 1 \<le> b then Some (cause E config b) else Some err)
             = (if a \<le> b then Some (cause E config b) else lastError)"
    using ab c by (cases "a = b") auto
  finally show ?case .
qed

lemma scrape_loop_past: "retries config < a \<Longrightarrow> scrape_loop E config a lastError w = (Exhausted lastError, w)"
  by (subst scrape_loop.simps) simp

lemma scrape_loop_success:
  "a \<le> retries config \<Longrightarrow> attemptScrape E config a = Inr data \<Longrightarrow>
     scrape_loop E config a lastError w = (Returned data, w\<lparr>scrapes := scrapes w @ [a]\<rparr>)"
  by (subst scrape_loop.simps) simp

lemma scrapeHealthcareRound_success_at:
  assumes "1 \<le> k" "k \<le> retries config"
    and "\<forall>i. 1 \<le> i \<and> i < k \<longrightarrow> isl (attemptScrape E config i)"
    and "attemptScrape E config k = Inr data"
  shows "scrapeHealthcareRound E config w =
           (data, (after_failures E config 1 (k - 1) w)
                    \<lparr>scrapes := scrapes w @ [1..k]\<rparr>)"
proof -
  have f: "\<forall>i. 1 \<le> i \<and> i \<le> k - 1 \<longrightarrow> isl (attemptScrape E config i)"
    using assms(3) by simp
  have m: "max 1 (k - 1 + 1) = k" using assms(1) by simp
  have u: "[1..k - 1] @ [k] = [1..k]" using assms(1) by (simp add: upto_rec2)
  have "scrape_loop E config 1 None w =
          (Returned data, (after_failures E config 1 (k - 1) w)
                            \<lparr>scrapes := scrapes (after_failures E config 1 (k - 1) w) @ [k]\<rparr>)"
    using scrape_loop_failures [OF f, of None w] assms(2) m
      scrape_loop_success [OF assms(2) assms(4)]
    by simp
  then show ?thesis using u by (simp add: scrapeHealthcareRound_def after_failures_def)
qed

lemma scrapeHealthcareRound_exhausted:
  assumes "1 \<le> retries config"
    and "\<forall>i. 1 \<le> i \<and> i \<le> retries config \<longrightarrow> isl (attemptScrape E config i)"
  shows "scrapeHealthcareRound E config w =
           (Null, logError (cause E config (retries config))
                    (''All '' @ show_int (retries config) @ '' scraping attempts failed'')
                    (after_failures E config 1 (retries config) w))"
proof -
  have m: "max 1 (retries config + 1) = retries config + 1" using assms(1) by simp
  have "scrape_loop E config 1 None w =
          (Exhausted (Some (cause E config (retries config))), after_failures E config 1 (retries config) w)"
    using scrape_loop_failures [OF assms(2), of None w] assms(1) m
      scrape_loop_past [of config "retries config + 1" E]
    by simp
  then show ?thesis by (simp add: scrapeHealthcareRound_def)
qed

lemma scrapeHealthcareRound_no_attempt:
  assumes "retries config \<le> 0"
  shows "scrapeHealthcareRound E config w =
           (Null, logError (Error ''Unknown error'')
                    (''All '' @ show_int (retries config) @ '' scraping attempts failed'') w)"
  using assms scrape_loop_past [of config 1 E None w]
  by (simp add: scrapeHealthcareRound_def)



lemma after_failures_fields:
  "scrapes (after_failures E config a b w) = scrapes w @ [a..b]"
  "sleeps (after_failures E config a b w) = sleeps w @ map (backoff config) [a..min b (retries config - 1)]"
  "console (after_failures E config a b w) =
     console w @ map (\<lambda>i. LogError (cause E config i) (attempt_context config i)) [a..b]"
  "files (after_failures E config a b w) = files w"
  "fs_ops (after_failures E config a b w) = fs_ops w"
  "posts (after_failures E config a b w) = posts w"
  by (simp_all add: after_failures_def)

lemma delay_exact_iff:
  assumes "1 \<le> i"
  shows "number_times (Finite d) (Math_pow2 (i - 1)) = Finite (d * 2 ^ nat (i - 1))
           \<longleftrightarrow> i \<le> 1024 \<and> \<bar>d\<bar> * 2 ^ nat (i - 1) < overflow_threshold"
proof (cases "i \<le> 1024")
  case True
  then have p: "Math_pow2 (i - 1) = Finite (2 ^ nat (i - 1))"
    using assms by (simp add: Math_pow2_def)
  have a: "\<bar>d * 2 ^ nat (i - 1)\<bar> = \<bar>d\<bar> * 2 ^ nat (i - 1)"
    by (simp add: abs_mult)
  show ?thesis using True by (simp add: p a)
next
  case False
  then have p: "Math_pow2 (i - 1) = PosInfinity"
    by (simp add: Math_pow2_def)
  show ?thesis using False by (simp add: p)
qed

text \<open>
  C6, as the code has it. With from 1 to \<open>2 ^ 53 - 1\<close> attempts configured (the integers a
  double counts through): when the attempts before the \<open>k\<close>-th fail and the \<open>k\<close>-th
  succeeds, \<open>scrapeHealthcareRound\<close> returns its entry after the attempts 1 to \<open>k\<close> and
  \<open>k - 1\<close> sleeps; when every attempt fails it returns \<^verbatim>\<open>null\<close> after exactly \<open>retries\<close>
  attempts and \<open>retries - 1\<close> sleeps. The \<open>i\<close>-th sleep is asked for with the product of
  doubles \<^verbatim>\<open>retryDelay * Math.pow(2, i - 1)\<close>, and for a finite \<open>retryDelay\<close> that product
  is the exact \<open>retryDelay * 2 ^ (i - 1)\<close> if and only if \<open>i\<close> is at most 1024 and the
  exact product is below \<open>2 ^ 1024\<close> in magnitude.
\<close>

theorem scrapeHealthcareRound_attempts_and_sleeps:
  fixes E config w
  defines "r \<equiv> scrapeHealthcareRound E config w"
  assumes "1 \<le> retries config" and "retries config < 2 ^ 53"
  shows "(\<forall>k data. 1 \<le> k \<and> k \<le> retries config
            \<and> (\<forall>i. 1 \<le> i \<and> i < k \<longrightarrow> isl (attemptScrape E config i))
            \<and> attemptScrape E config k = Inr data \<longrightarrow>
            fst r = data
            \<and> scrapes (snd r) = scrapes w @ [1..k]
            \<and> sleeps (snd r) =
                 sleeps w @ map (\<lambda>i. number_times (retryDelay config) (Math_pow2 (i - 1))) [1..k - 1]
            \<and> length (sleeps (snd r)) = length (sleeps w) + nat (k - 1))
       \<and> ((\<forall>i. 1 \<le> i \<and> i \<le> retries config \<longrightarrow> isl (attemptScrape E config i)) \<longrightarrow>
            fst r = Null
            \<and> scrapes (snd r) = scrapes w @ [1..retries config]
            \<and> length (scrapes (snd r)) = length (scrapes w) + nat (retries config)
            \<and> sleeps (snd r) =
                 sleeps w @ map (\<lambda>i. number_times (retryDelay config) (Math_pow2 (i - 1)))
                              [1..retries config - 1]
            \<and> length (sleeps (snd r)) = length (sleeps w) + nat (retries config - 1))
       \<and> (\<forall>d i. 1 \<le> i \<longrightarrow>
            (number_times (Finite d) (Math_pow2 (i - 1)) = Finite (d * 2 ^ nat (i - 1))
               \<longleftrightarrow> i \<le> 1024 \<and> \<bar>d\<bar> * 2 ^ nat (i - 1) < overflow_threshold))"
proof -
  have b: "backoff config = (\<lambda>i. number_times (retryDelay config) (Math_pow2 (i - 1)))"
    by (rule ext) (simp add: backoff_def)
  have 1: "fst r = data
            \<and> scrapes (snd r) = scrapes w @ [1..k]
            \<and> sleeps (snd r) =
                 sleeps w @ map (\<lambda>i. number_times (retryDelay config) (Math_pow2 (i - 1))) [1..k - 1]
            \<and> length (sleeps (snd r)) = length (sleeps w) + nat (k - 1)"
    if h: "1 \<le> k \<and> k \<le> retries config
            \<and> (\<forall>i. 1 \<le> i \<and> i < k \<longrightarrow> isl (attemptScrape E config i))
            \<and> attemptScrape E config k = Inr data" for k data
  proof -
    have m: "min (k - 1) (retries config - 1) = k - 1" using h by simp
    have "r = (data, (after_failures E config 1 (k - 1) w)\<lparr>scrapes := scrapes w @ [1..k]\<rparr>)"
      unfolding r_def using h by (intro scrapeHealthcareRound_success_at) simp_all
    then show ?thesis using h by (simp add: after_failures_fields m b)
  qed
  have 2: "fst r = Null
            \<and> scrapes (snd r) = scrapes w @ [1..retries config]
            \<and> length (scrapes (snd r)) = length (scrapes w) + nat (retries config)
            \<and> sleeps (snd r) =
                 sleeps w @ map (\<lambda>i. number_times (retryDelay config) (Math_pow2 (i - 1)))
                              [1..retries config - 1]
            \<and> length (sleeps (snd r)) = length (sleeps w) + nat (retries config - 1)"
    if h: "\<forall>i. 1 \<le> i \<and> i \<le> retries config \<longrightarrow> isl (attemptScrape E config i)"
  proof -
    have m: "min (retries config) (retries config - 1) = retries config - 1" by simp
    show ?thesis
      unfolding r_def scrapeHealthcareRound_exhausted [OF assms(2) h]
      by (simp add: after_failures_fields logError_def m b)
  qed
  have 3: "number_times (Finite d) (Math_pow2 (i - 1)) = Finite (d * 2 ^ nat (i - 1))
               \<longleftrightarrow> i \<le> 1024 \<and> \<bar>d\<bar> * 2 ^ nat (i - 1) < overflow_threshold"
    if "1 \<le> i" for d i
    using that by (rule delay_exact_iff)
  show ?thesis using 1 2 3 by blast
qed

lemmas source_eval = failing_source_def tableless_source_def third_time_source_def

theorem scrapeHealthcareRound_attempts_and_sleeps_witness:
  "fst (scrapeHealthcareRound (quiet_env third_time_source) (scraper default_config) empty_world) = entry_jan15
   \<and> scrapes (snd (scrapeHealthcareRound (quiet_env third_time_source) (scraper default_config) empty_world))
       = [1, 2, 3]
   \<and> sleeps (snd (scrapeHealthcareRound (quiet_env third_time_source) (scraper default_config) empty_world))
       = [Finite 1000, Finite 2000]
   \<and> fst (scrapeHealthcareRound (quiet_env failing_source) (scraper default_config) empty_world) = Null
   \<and> scrapes (snd (scrapeHealthcareRound (quiet_env failing_source) (scraper default_config) empty_world))
       = [1, 2, 3]
   \<and> sleeps (snd (scrapeHealthcareRound (quiet_env failing_source) (scraper default_config) empty_world))
       = [Finite 1000, Finite 2000]"
proof -
  have c: "1 \<le> retries (scraper default_config)" "retries (scraper default_config) < 2 ^ 53"
    by (simp_all add: default_config_def)
  have n: "retries (scraper default_config) = 3" "retryDelay (scraper default_config) = Finite 1000"
    by (simp_all add: default_config_def)
  have x: "number_times (Finite 1000) (Math_pow2 0) = Finite 1000"
    "number_times (Finite 1000) (Math_pow2 1) = Finite 2000"
    by (simp_all add: Math_pow2_def overflow_threshold_def)
  have w: "scrapes empty_world = []" "sleeps empty_world = []"
    by (simp_all add: empty_world_def)
  have u: "[1..3::int] = [1, 2, 3]" "[1..2::int] = [1, 2]"
    by (simp_all add: upto_rec1)
  have h3: "1 \<le> (3::int) \<and> 3 \<le> retries (scraper default_config)
            \<and> (\<forall>i. 1 \<le> i \<and> i < 3 \<longrightarrow>
                  isl (attemptScrape (quiet_env third_time_source) (scraper default_config) i))
            \<and> attemptScrape (quiet_env third_time_source) (scraper default_config) 3 = Inr entry_jan15"
    by (simp add: n quiet_env_def source_eval)
  have hf: "\<forall>i. 1 \<le> i \<and> i \<le> retries (scraper default_config) \<longrightarrow>
                  isl (attemptScrape (quiet_env failing_source) (scraper default_config) i)"
    by (simp add: quiet_env_def source_eval)
  note a = scrapeHealthcareRound_attempts_and_sleeps
      [of "scraper default_config" "quiet_env third_time_source" empty_world, OF c,
        THEN conjunct1, THEN spec, THEN spec, THEN mp, OF h3]
  note b = scrapeHealthcareRound_attempts_and_sleeps
      [of "scraper default_config" "quiet_env failing_source" empty_world, OF c,
        THEN conjunct2, THEN conjunct1, THEN mp, OF hf]
  show ?thesis using a b by (simp add: n w u x)
qed

text \<open>
  The specification has the durations be \<open>retryDelay * 2 ^ (i - 1)\<close> for every
  configuration. The code computes them in doubles: with a delay of 0 and 1026 attempts
  configured, the sleep after the 1025th failure is asked for with \<^verbatim>\<open>0 * Infinity\<close>, which
  is \<^verbatim>\<open>NaN\<close> and not 0; with the delay of 1000 and 1017 attempts, the sleep after the
  1016th failure is asked for with \<^verbatim>\<open>Infinity\<close>, the product having overflowed.
\<close>

theorem scrapeHealthcareRound_delay_overflows:
  "1 \<le> retries ((scraper default_config)\<lparr>retries := 1026, retryDelay := Finite 0\<rparr>)
   \<and> length (sleeps (snd (scrapeHealthcareRound (quiet_env failing_source)
                 ((scraper default_config)\<lparr>retries := 1026, retryDelay := Finite 0\<rparr>) empty_world)))
       = 1025
   \<and> sleeps (snd (scrapeHealthcareRound (quiet_env failing_source)
                 ((scraper default_config)\<lparr>retries := 1026, retryDelay := Finite 0\<rparr>) empty_world))
         ! 1024 = NaN
   \<and> NaN \<noteq> Finite (0 * 2 ^ 1024)
   \<and> length (sleeps (snd (scrapeHealthcareRound (quiet_env failing_source)
                 ((scraper default_config)\<lparr>retries := 1017\<rparr>) empty_world)))
       = 1016
   \<and> sleeps (snd (scrapeHealthcareRound (quiet_env failing_source)
                 ((scraper default_config)\<lparr>retries := 1017\<rparr>) empty_world))
         ! 1015 = PosInfinity
   \<and> PosInfinity \<noteq> Finite (1000 * 2 ^ 1015)"
proof -
  let ?c0 = "(scraper default_config)\<lparr>retries := 1026, retryDelay := Finite 0\<rparr>"
  let ?c1 = "(scraper default_config)\<lparr>retries := 1017\<rparr>"
  have f: "\<forall>i. 1 \<le> i \<and> i \<le> retries c \<longrightarrow> isl (attemptScrape (quiet_env failing_source) c i)" for c
    by (simp add: quiet_env_def source_eval)
  have r0: "1 \<le> retries ?c0" and r1: "1 \<le> retries ?c1" by simp_all
  have s0: "sleeps (snd (scrapeHealthcareRound (quiet_env failing_source) ?c0 empty_world))
              = map (backoff ?c0) [1..1025]"
    unfolding scrapeHealthcareRound_exhausted [OF r0 f]
    by (simp add: after_failures_fields logError_def empty_world_def)
  have s1: "sleeps (snd (scrapeHealthcareRound (quiet_env failing_source) ?c1 empty_world))
              = map (backoff ?c1) [1..1016]"
    unfolding scrapeHealthcareRound_exhausted [OF r1 f]
    by (simp add: after_failures_fields logError_def empty_world_def)
  have n0: "[1..1025::int] ! 1024 = 1025" by (simp add: nth_upto)
  have n1: "[1..1016::int] ! 1015 = 1016" by (simp add: nth_upto)
  have b0: "backoff ?c0 1025 = NaN"
    by (simp add: backoff_def Math_pow2_def)
  have b1: "backoff ?c1 1016 = PosInfinity"
    by (simp add: backoff_def Math_pow2_def overflow_threshold_def default_config_def)
  show ?thesis
    by (simp add: s0 s1 n0 n1 b0 b1)
qed



lemma show_int_0: "show_int 0 = ''0''"
  by code_simp



text \<open>
  C10. With \<open>retries\<close> zero or negative, \<open>scrapeHealthcareRound\<close> makes no attempt and no
  sleep: it logs that all attempts failed, with an unknown error for a cause, and returns
  \<^verbatim>\<open>null\<close>.
\<close>

theorem scrapeHealthcareRound_no_retries:
  assumes "retries config \<le> 0"
  shows "fst (scrapeHealthcareRound E config w) = Null
         \<and> scrapes (snd (scrapeHealthcareRound E config w)) = scrapes w
         \<and> sleeps (snd (scrapeHealthcareRound E config w)) = sleeps w
         \<and> console (snd (scrapeHealthcareRound E config w)) =
             console w @ [LogError (Error ''Unknown error'')
                            (''All '' @ show_int (retries config) @ '' scraping attempts failed'')]"
  by (simp add: scrapeHealthcareRound_no_attempt [OF assms] logError_def)

theorem scrapeHealthcareRound_no_retries_witness:
  "retries ((scraper default_config)\<lparr>retries := 0\<rparr>) \<le> 0
   \<and> fst (scrapeHealthcareRound (quiet_env third_time_source) ((scraper default_config)\<lparr>retries := 0\<rparr>)
            empty_world) = Null
   \<and> scrapes (snd (scrapeHealthcareRound (quiet_env third_time_source)
                     ((scraper default_config)\<lparr>retries := 0\<rparr>) empty_world)) = []
   \<and> sleeps (snd (scrapeHealthcareRound (quiet_env third_time_source)
                     ((scraper default_config)\<lparr>retries := 0\<rparr>) empty_world)) = []
   \<and> console (snd (scrapeHealthcareRound (quiet_env third_time_source)
                     ((scraper default_config)\<lparr>retries := 0\<rparr>) empty_world))
       = [LogError (Error ''Unknown error'') ''All 0 scraping attempts failed'']"
proof -
  have c: "retries ((scraper default_config)\<lparr>retries := 0\<rparr>) \<le> 0" by simp
  show ?thesis
    using c scrapeHealthcareRound_no_retries [OF c, of "quiet_env third_time_source" empty_world]
    by (simp add: empty_world_def show_int_0)
qed


section \<open>Orchestration\<close>

text \<open>
  Two whole runs. With the entry of 14 January stored and that of 15 January scraped,
  \<open>runMonitor\<close> logs the change, posts the notification, writes the new entry and
  completes; a read afterwards returns the new entry. With the entry of 15 January stored
  and the same date scraped with other counts, it logs that nothing changed, posts nothing
  and writes nothing.
\<close>

lemma runMonitor_change_scenario:
  "fst (runMonitor strict_engine (quiet_env first_time_source) default_config world_with_jan14) = None
   \<and> console (snd (runMonitor strict_engine (quiet_env first_time_source) default_config world_with_jan14))
       = [LogChange entry_jan15]
   \<and> posts (snd (runMonitor strict_engine (quiet_env first_time_source) default_config world_with_jan14))
       = [(''https://ntfy.sh/none'', entry_text_compact ''2024-01-15'' ''150'' ''410'')]
   \<and> files (snd (runMonitor strict_engine (quiet_env first_time_source) default_config world_with_jan14))
         ''./last-draw-data.json'' = Some jan15_text
   \<and> fst (readStoredData strict_engine (quiet_env first_time_source) (storage default_config)
            (snd (runMonitor strict_engine (quiet_env first_time_source) default_config world_with_jan14)))
       = make_entry 12 ''2024-01-15'' 150 410"
proof -
  let ?E = "quiet_env first_time_source"
  let ?w1 = "world_with_jan14\<lparr>fs_ops := [ReadFile ''./last-draw-data.json'']\<rparr>"
  let ?w2 = "(logChange entry_jan15 (?w1\<lparr>scrapes := [1]\<rparr>))
               \<lparr>posts := posts (logChange entry_jan15 (?w1\<lparr>scrapes := [1]\<rparr>))
                  @ [(''https://ntfy.sh/none'', entry_text_compact ''2024-01-15'' ''150'' ''410'')]\<rparr>"
  have rd: "readStoredData strict_engine ?E (storage default_config) world_with_jan14
              = (make_entry 11 ''2024-01-14'' 100 400, ?w1)"
    by (simp add: readStoredData_def readStoredData_try_def world_eval fs_eval engine_eval text_eval
        entry_eval)
  have sc: "scrapeHealthcareRound ?E (scraper default_config) ?w1 = (entry_jan15, ?w1\<lparr>scrapes := [1]\<rparr>)"
    by (simp add: scrapeHealthcareRound_def world_eval first_time_source_def scrape_loop_success)
  have cm: "compareData (make_entry 11 ''2024-01-14'' 100 400) entry_jan15
              = Inr \<lparr>hasChanged = True, previous = make_entry 11 ''2024-01-14'' 100 400,
                      current = entry_jan15\<rparr>"
    by (simp add: compareData_cases entry_eval)
  have st: "JSON_stringify strict_engine entry_jan15 0 = entry_text_compact ''2024-01-15'' ''150'' ''410''"
    by (simp add: engine_eval entry_eval)
  have nn: "entry_jan15 \<noteq> Null" by (simp add: entry_eval)
  have fr: "fetch_rejects ?E u b = None" for u b
    by (simp add: world_eval)
  have cf: "channel (ntfy default_config) = ''none''"
    by (simp add: default_config_def)
  have wr: "fst (writeStoredData strict_engine ?E (storage default_config) entry_jan15 ?w2) = None"
    by (simp add: writeStoredData_def writeStoredData_try_def world_eval fs_eval engine_eval logChange_def)
  obtain w3 where w3: "writeStoredData strict_engine ?E (storage default_config) entry_jan15 ?w2 = (None, w3)"
    using wr by (cases "writeStoredData strict_engine ?E (storage default_config) entry_jan15 ?w2") simp
  have run: "runMonitor strict_engine ?E default_config world_with_jan14 = (None, w3)"
    by (simp add: runMonitor_def runMonitor_try_def rd sc cm st nn fr js_fetch_def cf w3)
  have f3: "files w3 ''./last-draw-data.json'' = Some jan15_text"
    using writeStoredData_success_file [OF wr] w3 by (simp add: engine_eval entry_eval default_config_def)
  have t3: "w3 = snd (writeStoredData_try strict_engine ?E (storage default_config) entry_jan15 ?w2)"
    using w3 by (cases "writeStoredData_try strict_engine ?E (storage default_config) entry_jan15 ?w2")
      (simp add: writeStoredData_def split: option.splits)
  have c3: "console w3 = [LogChange entry_jan15]"
    "posts w3 = [(''https://ntfy.sh/none'', entry_text_compact ''2024-01-15'' ''150'' ''410'')]"
    unfolding t3
    by (simp_all add: writeStoredData_try_def world_eval fs_eval engine_eval logChange_def)
  have r3: "fst (readStoredData strict_engine ?E (storage default_config) w3)
              = make_entry 12 ''2024-01-15'' 150 410"
    using readStoredData_parsed(1) [of ?E "storage default_config" w3 jan15_text strict_engine
        "make_entry 12 ''2024-01-15'' 150 410"] f3
    by (simp add: world_eval engine_eval text_eval basic_structure_def entry_eval)
  show ?thesis using run f3 c3 r3 by simp
qed

lemma runMonitor_no_change_scenario:
  "runMonitor strict_engine (quiet_env recount_source) default_config (world_with_file jan15_text)
     = (None, (world_with_file jan15_text)
                \<lparr>fs_ops := [ReadFile ''./last-draw-data.json''], scrapes := [1],
                  console := [LogNoChange]\<rparr>)"
proof -
  let ?E = "quiet_env recount_source"
  let ?w1 = "(world_with_file jan15_text)\<lparr>fs_ops := [ReadFile ''./last-draw-data.json'']\<rparr>"
  have rd: "readStoredData strict_engine ?E (storage default_config) (world_with_file jan15_text)
              = (make_entry 12 ''2024-01-15'' 150 410, ?w1)"
    by (simp add: readStoredData_def readStoredData_try_def world_eval fs_eval engine_eval text_eval
        entry_eval)
  have sc: "scrapeHealthcareRound ?E (scraper default_config) ?w1
              = (entry_jan15_recount, ?w1\<lparr>scrapes := [1]\<rparr>)"
    by (simp add: scrapeHealthcareRound_def world_eval recount_source_def scrape_loop_success)
  have cm: "compareData (make_entry 12 ''2024-01-15'' 150 410) entry_jan15_recount
              = Inr \<lparr>hasChanged = False, previous = make_entry 12 ''2024-01-15'' 150 410,
                      current = entry_jan15_recount\<rparr>"
    by (simp add: compareData_cases entry_eval)
  have nn: "entry_jan15_recount \<noteq> Null" by (simp add: entry_eval)
  have "runMonitor strict_engine ?E default_config (world_with_file jan15_text)
          = (None, logNoChange (?w1\<lparr>scrapes := [1]\<rparr>))"
    by (simp add: runMonitor_def runMonitor_try_def rd sc cm nn)
  then show ?thesis by (simp add: logNoChange_def world_with_file_def empty_world_def)
qed

text \<open>
  C1 asks that a failed notification be logged and the entry still be written. The code
  awaits \<^verbatim>\<open>fetch\<close> inside the outer \<^verbatim>\<open>try\<close> with no handler of its own: with the entry
  of 14 January stored, the entry of 15 January scraped at the first attempt and the
  notification request rejected, \<open>runMonitor\<close> logs the change, takes the rejection to the
  outer \<^verbatim>\<open>catch\<close> and throws; \<open>writeStoredData\<close> is never called (the only file-system
  call is the read) and the stored file still holds the entry of 14 January.
\<close>

theorem runMonitor_notifier_failure_aborts:
  "fst (runMonitor strict_engine notifier_down_env default_config world_with_jan14)
     = Some (Error ''TypeError: fetch failed'')
   \<and> fs_ops (snd (runMonitor strict_engine notifier_down_env default_config world_with_jan14))
     = [ReadFile ''./last-draw-data.json'']
   \<and> files (snd (runMonitor strict_engine notifier_down_env default_config world_with_jan14))
       ''./last-draw-data.json'' = Some jan14_text
   \<and> console (snd (runMonitor strict_engine notifier_down_env default_config world_with_jan14))
     = [LogChange entry_jan15,
        LogError (TypeError ''fetch failed'') ''Unexpected error in monitor orchestration'']
   \<and> posts (snd (runMonitor strict_engine notifier_down_env default_config world_with_jan14))
     = [(''https://ntfy.sh/none'', entry_text_compact ''2024-01-15'' ''150'' ''410'')]"
proof -
  let ?w1 = "world_with_jan14\<lparr>fs_ops := [ReadFile ''./last-draw-data.json'']\<rparr>"
  have rd: "readStoredData strict_engine notifier_down_env (storage default_config) world_with_jan14
              = (make_entry 11 ''2024-01-14'' 100 400, ?w1)"
    by (simp add: readStoredData_def readStoredData_try_def world_eval fs_eval engine_eval text_eval
        entry_eval notifier_down_env_def)
  have sc: "scrapeHealthcareRound notifier_down_env (scraper default_config) ?w1
              = (entry_jan15, ?w1\<lparr>scrapes := [1]\<rparr>)"
    by (simp add: scrapeHealthcareRound_def world_eval notifier_down_env_def first_time_source_def
        scrape_loop_success)
  have cm: "compareData (make_entry 11 ''2024-01-14'' 100 400) entry_jan15
              = Inr \<lparr>hasChanged = True, previous = make_entry 11 ''2024-01-14'' 100 400,
                      current = entry_jan15\<rparr>"
    by (simp add: compareData_cases entry_eval)
  have st: "JSON_stringify strict_engine entry_jan15 0 = entry_text_compact ''2024-01-15'' ''150'' ''410''"
    by (simp add: engine_eval entry_eval)
  have nn: "entry_jan15 \<noteq> Null" by (simp add: entry_eval)
  have fr: "fetch_rejects notifier_down_env u b = Some (TypeError ''fetch failed'')" for u b
    by (simp add: notifier_down_env_def world_eval)
  have cf: "channel (ntfy default_config) = ''none''"
    by (simp add: default_config_def)
  have "runMonitor strict_engine notifier_down_env default_config world_with_jan14
          = (Some (Error ''TypeError: fetch failed''),
             logError (TypeError ''fetch failed'') ''Unexpected error in monitor orchestration''
               ((logChange entry_jan15 (?w1\<lparr>scrapes := [1]\<rparr>))
                  \<lparr>posts := posts (logChange entry_jan15 (?w1\<lparr>scrapes := [1]\<rparr>))
                     @ [(''https://ntfy.sh/none'', entry_text_compact ''2024-01-15'' ''150'' ''410'')]\<rparr>))"
    by (simp add: runMonitor_def runMonitor_try_def rd sc cm st nn fr js_fetch_def cf
        error_to_string_def)
  then show ?thesis
    by (simp add: logChange_def logError_def world_with_jan14_def empty_world_def)
qed

end
